theory Spec2Isabelle
  imports Complex_Main "HOL-Library.Log_Nat"
begin

section \<open>Interview orchestration engine: data model\<close>

text \<open>
  The development embeds the server side of the interview practice application:
  \<^item> \<^verbatim>\<open>server/src/types/InterviewTypes.ts\<close> (the session record),
  \<^item> \<^verbatim>\<open>server/src/models/InterviewSession.ts\<close> (the Mongoose schema documents are validated
    against when they are saved),
  \<^item> \<^verbatim>\<open>server/src/services/LLMService.ts\<close> (the provider facade with one-time failover),
  \<^item> \<^verbatim>\<open>server/src/services/OllamaService.ts\<close> and \<^verbatim>\<open>BedrockService.ts\<close> (moderation,
    planner decision; both providers share the code of the functions embedded here),
  \<^item> \<^verbatim>\<open>server/src/controllers/InterviewController.ts\<close> (the turn orchestrator).

  Conventions. A JavaScript \<^verbatim>\<open>Date\<close> is its \<^verbatim>\<open>getTime()\<close> value, an \<open>int\<close> of
  milliseconds. A JavaScript \<^verbatim>\<open>number\<close> is the rational it denotes, and every operation
  that can round (\<^verbatim>\<open>/\<close>, \<^verbatim>\<open>*\<close>, a decimal literal) rounds its exact result to the nearest
  IEEE double, see \<open>double\<close> below. A JavaScript string is the UTF-8 encoding of its text. A
  field that the source may leave \<^verbatim>\<open>undefined\<close> is an \<open>option\<close>. Every call that leaves the
  process (a language-model invocation, a clock reading) takes its answer from an explicit
  environment record, with \<open>None\<close> for a call that throws. An exception that reaches the
  \<^verbatim>\<open>catch\<close> of a request handler is the HTTP error the handler answers with, in the left
  summand of the result.
\<close>

datatype phase = Setup | Warmup | Behavioral | Technical | SystemDesign | Product | WrapUp | Completed

datatype interviewMode = Practice | Mock

datatype role = User | Assistant | System

text \<open>
  \<^verbatim>\<open>sessionConfigSchema\<close> has no path \<^verbatim>\<open>interviewMode\<close>: a session document holds none,
  whatever the request said, and \<open>interviewMode\<close> of a configuration read from a document
  is \<open>None\<close>.
\<close>

record SessionConfig =
  config_role :: string
  seniority :: string
  interviewTypes :: "string list"
  durationMinutes :: rat
  interviewMode :: "interviewMode option"

record SessionState =
  phase :: phase
  currentQuestionIndex :: nat
  questionsAsked :: nat
  startTime :: "int option"
  endTime :: "int option"
  lastActivity :: int
  isActive :: bool

text \<open>
  \<^verbatim>\<open>metadata.evaluationScore\<close> has the schema type \<^verbatim>\<open>Number\<close>. A score is kept by the text
  the template prints for it, together with whether the schema can cast it to a number.
\<close>

datatype score = NumericScore string | UncastableScore string

record Metadata =
  questionType :: phase
  isFollowUp :: bool
  evaluationScore :: "score option"

record Message =
  role :: role
  content :: string
  timestamp :: int
  metadata :: "Metadata option"

text \<open>
  The three texts of an \<^verbatim>\<open>AgenticDecision\<close> come from the planner's JSON. \<open>None\<close> is a
  field that is missing or \<^verbatim>\<open>null\<close>; the fields the model represents are strings.
\<close>

record AgenticDecision =
  decision_timestamp :: int
  decision :: "string option"
  reasoning :: "string option"
  decision_context :: "string option"

text \<open>
  What \<^verbatim>\<open>JSON.parse\<close> makes of an evaluation reply: \<^verbatim>\<open>null\<close>, an object whose fields the
  schema can cast (its five scores and the recommendation, each possibly missing), or any
  other value. \<^verbatim>\<open>session.evaluation\<close> holds the parsed value as it was assigned, or the
  fallback evaluation of the \<^verbatim>\<open>catch\<close>.
\<close>

record EvaluationJson =
  communication_score :: "rat option"
  technicalDepth_score :: "rat option"
  problemSolving_score :: "rat option"
  leadership_score :: "rat option"
  overall_score :: "rat option"
  overall_recommendation :: "string option"

datatype evaluation_value = EvaluationNull | EvaluationOther | EvaluationObject EvaluationJson

datatype evaluation = ParsedEvaluation evaluation_value | FallbackEvaluation

record InterviewSession =
  config :: SessionConfig
  state :: SessionState
  messages :: "Message list"
  evaluation :: "evaluation option"
  agenticDecisions :: "AgenticDecision list"

text \<open>The error answers of the two handlers embedded here: 400, 503 and 500.\<close>

datatype http_error = BadRequest string | ServiceUnavailable string | ServerError string

section \<open>Schema validation\<close>

text \<open>
  \<^verbatim>\<open>session.save()\<close> validates the document against \<^verbatim>\<open>interviewSessionSchema\<close> and rejects
  with a validation error when a path fails: \<^verbatim>\<open>role\<close>, \<^verbatim>\<open>seniority\<close> and every interview
  type are checked against their \<^verbatim>\<open>enum\<close>; \<^verbatim>\<open>content\<close> of a message and \<^verbatim>\<open>decision\<close>,
  \<^verbatim>\<open>reasoning\<close> and \<^verbatim>\<open>context\<close> of a decision are \<^verbatim>\<open>required\<close>, which an empty string fails
  as a missing value does; every score of an evaluation has \<^verbatim>\<open>min: 1, max: 5\<close> and the
  recommendation an \<^verbatim>\<open>enum\<close>; a value that the schema cannot cast is recorded as a cast
  error on the document and fails the validation too. A phase and a message role of the model
  are in their \<^verbatim>\<open>enum\<close> by their type.
\<close>

definition role_enum :: "string list" where
  "role_enum = [''Software Engineer'', ''Product Manager'', ''Sales Representative'',
     ''Marketing Manager'', ''Data Scientist'', ''Designer'', ''Consultant'', ''Other'']"

definition seniority_enum :: "string list" where
  "seniority_enum =
     [''Intern'', ''Junior'', ''Mid-Level'', ''Senior'', ''Staff'', ''Principal'', ''Distinguished'',
      ''Associate PM'', ''PM'', ''Senior PM'', ''Principal PM'', ''Director'', ''VP Product'',
      ''Sales Associate'', ''Account Executive'', ''Senior AE'', ''Territory Manager'',
      ''Regional Manager'', ''Country Manager'', ''Global Head'',
      ''Marketing Associate'', ''Marketing Manager'', ''Senior Manager'', ''VP Marketing'', ''CMO'',
      ''Junior Data Scientist'', ''Data Scientist'', ''Senior Data Scientist'',
      ''Staff Data Scientist'', ''Principal Data Scientist'',
      ''Junior Designer'', ''Product Designer'', ''Senior Designer'', ''Staff Designer'',
      ''Principal Designer'', ''Design Director'',
      ''Analyst'', ''Associate'', ''Senior Associate'', ''Manager'', ''Senior Manager'',
      ''Entry Level'', ''Mid Level'', ''Senior Level'', ''Leadership'']"

definition interviewType_enum :: "string list" where
  "interviewType_enum =
     [''Behavioral'', ''Technical'', ''System Design'', ''Product Sense'', ''Case Study'',
      ''Leadership'', ''Coding'', ''Sales Roleplay'', ''Negotiation'', ''Strategy'',
      ''Campaign Planning'', ''Statistics & ML'', ''Portfolio Review'', ''Design Challenge'',
      ''Problem Solving'', ''Client Interaction'']"

definition recommendation_enum :: "string list" where
  "recommendation_enum = [''Strong Hire'', ''Hire'', ''Maybe'', ''No Hire'']"

definition valid_config :: "SessionConfig \<Rightarrow> bool" where
  "valid_config c =
     (List.member role_enum (config_role c) \<and> List.member seniority_enum (seniority c)
      \<and> list_all (List.member interviewType_enum) (interviewTypes c))"

definition required_text :: "string option \<Rightarrow> bool" where
  "required_text v = (case v of None \<Rightarrow> False | Some s \<Rightarrow> s \<noteq> [])"

definition valid_message :: "Message \<Rightarrow> bool" where
  "valid_message m =
     (content m \<noteq> []
      \<and> (case metadata m of
            None \<Rightarrow> True
          | Some d \<Rightarrow> (case evaluationScore d of Some (UncastableScore t) \<Rightarrow> False | _ \<Rightarrow> True)))"

definition valid_decision :: "AgenticDecision \<Rightarrow> bool" where
  "valid_decision d =
     (required_text (decision d) \<and> required_text (reasoning d) \<and> required_text (decision_context d))"

definition valid_score :: "rat option \<Rightarrow> bool" where
  "valid_score v = (case v of None \<Rightarrow> True | Some x \<Rightarrow> 1 \<le> x \<and> x \<le> 5)"

definition valid_evaluation :: "evaluation \<Rightarrow> bool" where
  "valid_evaluation e =
     (case e of
        FallbackEvaluation \<Rightarrow> True
      | ParsedEvaluation EvaluationNull \<Rightarrow> True
      | ParsedEvaluation EvaluationOther \<Rightarrow> False
      | ParsedEvaluation (EvaluationObject j) \<Rightarrow>
          valid_score (communication_score j) \<and> valid_score (technicalDepth_score j)
          \<and> valid_score (problemSolving_score j) \<and> valid_score (leadership_score j)
          \<and> valid_score (overall_score j)
          \<and> (case overall_recommendation j of
                None \<Rightarrow> True
              | Some t \<Rightarrow> List.member recommendation_enum t))"

definition validates :: "InterviewSession \<Rightarrow> bool" where
  "validates s =
     (valid_config (config s) \<and> list_all valid_message (messages s)
      \<and> list_all valid_decision (agenticDecisions s)
      \<and> (case evaluation s of None \<Rightarrow> True | Some e \<Rightarrow> valid_evaluation e))"

section \<open>Phase state machine\<close>

text \<open>
  \<^verbatim>\<open>
  private getNextPhase(currentPhase: string): SessionState['phase'] {
    const phases = ['warmup', 'behavioral', 'technical', 'system_design', 'product', 'wrap_up'];
    const currentIndex = phases.indexOf(currentPhase);
    return phases[currentIndex + 1] || 'wrap_up';
  }
  \<close>
  \<^verbatim>\<open>indexOf\<close> answers \<open>-1\<close> for an element that is not in the array, and an array read out
  of range is \<^verbatim>\<open>undefined\<close>, which \<^verbatim>\<open>||\<close> replaces by its right operand.
\<close>

definition phases :: "phase list" where
  "phases = [Warmup, Behavioral, Technical, SystemDesign, Product, WrapUp]"

fun indexOf :: "'a list \<Rightarrow> 'a \<Rightarrow> int" where
  "indexOf [] x = - 1"
| "indexOf (y # ys) x =
     (if y = x then 0 else (let i = indexOf ys x in if i < 0 then - 1 else i + 1))"

definition at_index :: "'a list \<Rightarrow> int \<Rightarrow> 'a option" where
  "at_index xs i = (if 0 \<le> i \<and> i < int (length xs) then Some (xs ! nat i) else None)"

definition getNextPhase :: "phase \<Rightarrow> phase" where
  "getNextPhase currentPhase =
     (let currentIndex = indexOf phases currentPhase
      in case at_index phases (currentIndex + 1) of Some p \<Rightarrow> p | None \<Rightarrow> WrapUp)"

section \<open>Numbers\<close>

text \<open>
  \<open>double x\<close> is the IEEE double nearest to \<open>x\<close>: the significand has 53 bits and a tie
  goes to the even one. The exponent is not bounded: minutes and clock differences are far
  from the overflow and the subnormal range. \<open>binade x\<close> is the exponent \<open>e\<close> with
  \<open>2 ^ e \<le> x < 2 ^ (e + 1)\<close> of a positive \<open>x\<close>.
\<close>

definition round_even :: "rat \<Rightarrow> int" where
  "round_even x =
     (let f = \<lfloor>x\<rfloor>; r = x - of_int f
      in if r < 1 / 2 then f else if 1 / 2 < r then f + 1 else if even f then f else f + 1)"

definition binade :: "rat \<Rightarrow> int" where
  "binade x = (if 1 \<le> x then bitlen \<lfloor>x\<rfloor> - 1 else - bitlen (\<lceil>1 / x\<rceil> - 1))"

definition double :: "rat \<Rightarrow> rat" where
  "double x =
     (if x = 0 then 0
      else (let ulp = 2 powi (binade \<bar>x\<bar> - 52) in of_int (round_even (x / ulp)) * ulp))"

section \<open>Hard-termination rule\<close>

text \<open>
  \<^verbatim>\<open>
  private shouldEndInterview(state: SessionState, durationMinutes: number): boolean {
    if (!state.startTime) return false;
    const elapsedMinutes = (Date.now() - state.startTime.getTime()) / (1000 * 60);
    const maxQuestions = Math.max(6, Math.min(12, Math.floor(durationMinutes / 4)));
    return elapsedMinutes >= durationMinutes ||
           state.questionsAsked >= maxQuestions ||
           state.phase === 'completed';
  }
  \<close>
  The third argument is the reading of \<^verbatim>\<open>Date.now()\<close>. The difference of two clock readings
  and the product \<^verbatim>\<open>1000 * 60\<close> are exact; the two divisions round.
\<close>

definition elapsedMinutes :: "int \<Rightarrow> int \<Rightarrow> rat" where
  "elapsedMinutes clock start = double (of_int (clock - start) / (1000 * 60))"

definition maxQuestions :: "rat \<Rightarrow> int" where
  "maxQuestions duration = max 6 (min 12 \<lfloor>double (duration / 4)\<rfloor>)"

definition shouldEndInterview :: "SessionState \<Rightarrow> rat \<Rightarrow> int \<Rightarrow> bool" where
  "shouldEndInterview st duration clock =
     (case startTime st of
        None \<Rightarrow> False
      | Some start \<Rightarrow>
          elapsedMinutes clock start \<ge> duration \<or>
          int (questionsAsked st) \<ge> maxQuestions duration \<or>
          phase st = Completed)"

section \<open>Provider facade\<close>

text \<open>
  \<^verbatim>\<open>LLMService\<close> holds three references. Two service objects are never the same object, and
  \<^verbatim>\<open>null === null\<close> holds, which is equality on \<open>provider option\<close>. The start-up
  environment says whether \<^verbatim>\<open>USE_BEDROCK\<close> is \<^verbatim>\<open>'true'\<close>, whether each constructor returns
  (an exception leaves the field \<^verbatim>\<open>null\<close> and is caught) and what each first
  \<^verbatim>\<open>testConnection()\<close> answers (both implementations catch their own errors and answer
  \<^verbatim>\<open>false\<close>).
\<close>

datatype provider = BedrockService | OllamaService

record LLMService =
  primaryService :: "provider option"
  fallbackService :: "provider option"
  activeService :: "provider option"

record startup_env =
  useBedrock :: bool
  bedrock_constructed :: bool
  bedrock_connected :: bool
  ollama_constructed :: bool
  ollama_connected :: bool

definition initializeServices :: "startup_env \<Rightarrow> LLMService" where
  "initializeServices e =
     (let s0 = \<lparr>primaryService = None, fallbackService = None, activeService = None\<rparr>;
          s1 = (if useBedrock e \<and> bedrock_constructed e then
                  (let sp = s0\<lparr>primaryService := Some BedrockService\<rparr>
                   in if bedrock_connected e then sp\<lparr>activeService := primaryService sp\<rparr> else sp)
                else s0)
      in if activeService s1 = None then
           (if ollama_constructed e then
              (let sf = s1\<lparr>fallbackService := Some OllamaService\<rparr>
               in if ollama_connected e then sf\<lparr>activeService := fallbackService sf\<rparr> else sf)
            else s1)
         else s1)"

definition getService :: "LLMService \<Rightarrow> string + provider" where
  "getService svc =
     (case activeService svc of
        None \<Rightarrow> Inl ''No LLM service is available. Please check your configuration.''
      | Some p \<Rightarrow> Inr p)"

text \<open>What the providers answer to a probe at some later moment.\<close>

record probe_env =
  bedrock_reachable :: bool
  ollama_reachable :: bool

definition probe :: "probe_env \<Rightarrow> provider \<Rightarrow> bool" where
  "probe w p = (case p of BedrockService \<Rightarrow> bedrock_reachable w | OllamaService \<Rightarrow> ollama_reachable w)"

definition testConnection :: "LLMService \<Rightarrow> probe_env \<Rightarrow> bool" where
  "testConnection svc w = (case getService svc of Inl _ \<Rightarrow> False | Inr p \<Rightarrow> probe w p)"

definition getActiveServiceName :: "LLMService \<Rightarrow> string" where
  "getActiveServiceName svc =
     (if activeService svc = primaryService svc then ''AWS Bedrock''
      else if activeService svc = fallbackService svc then ''Ollama''
      else ''None'')"

text \<open>
  The operations a running process performs on the facade, as state transformers: the health
  check, the name of the active service, and a delegated call (every \<^verbatim>\<open>generate...\<close>,
  \<^verbatim>\<open>analyze...\<close> and \<^verbatim>\<open>make...\<close> method starts with \<^verbatim>\<open>getService()\<close>). Each returns
  the facade as the method leaves it; no method assigns a field.
\<close>

datatype facade_call = TestConnection | GetActiveServiceName | DelegatedCall

datatype facade_result = Connected bool | ServiceName string | UsedService "string + provider"

definition facade_step :: "LLMService \<Rightarrow> facade_call \<times> probe_env \<Rightarrow> LLMService \<times> facade_result" where
  "facade_step svc cw =
     (case fst cw of
        TestConnection \<Rightarrow> (svc, Connected (testConnection svc (snd cw)))
      | GetActiveServiceName \<Rightarrow> (svc, ServiceName (getActiveServiceName svc))
      | DelegatedCall \<Rightarrow> (svc, UsedService (getService svc)))"

fun facade_run :: "LLMService \<Rightarrow> (facade_call \<times> probe_env) list \<Rightarrow> LLMService" where
  "facade_run svc [] = svc"
| "facade_run svc (cw # cws) = facade_run (fst (facade_step svc cw)) cws"

text \<open>
  \<^verbatim>\<open>healthCheck\<close> of the controller: \<^verbatim>\<open>testConnection()\<close>, then
  \<^verbatim>\<open>getActiveServiceName()\<close>; the answer is the pair (connected, llmService).
\<close>

definition healthCheck :: "LLMService \<Rightarrow> probe_env \<Rightarrow> bool \<times> string" where
  "healthCheck svc w = (testConnection svc w, getActiveServiceName svc)"

section \<open>Moderation guard\<close>

text \<open>
  \<^verbatim>\<open>analyzeResponseApproppriateness\<close> asks the model, parses its reply and reads six fields;
  anything thrown on the way (the invocation, \<^verbatim>\<open>JSON.parse\<close>, a property read on
  \<^verbatim>\<open>null\<close>) lands in the \<^verbatim>\<open>catch\<close>, which classifies by the length of the trimmed
  input. \<open>ModerationJson\<close> is the parsed reply: the truthiness of its boolean fields and
  its two strings (\<open>None\<close> for a missing or otherwise falsy value). The earlier
  \<^verbatim>\<open>OllamaService\<close> that classifies by regular expressions answers one of three fixed
  records, each of which this function also answers for a suitable reply.
\<close>

record Analysis =
  isAppropriate :: bool
  isOnTopic :: bool
  containsProfanity :: bool
  severity :: string
  reason :: string

record ModerationJson =
  json_isAppropriate :: bool
  json_isOnTopic :: bool
  json_containsProfanity :: bool
  json_isAbusive :: bool
  json_severity :: "string option"
  json_reason :: "string option"

definition or_default :: "string option \<Rightarrow> string \<Rightarrow> string" where
  "or_default v d = (case v of None \<Rightarrow> d | Some s \<Rightarrow> if s = [] then d else s)"

text \<open>
  \<^verbatim>\<open>response.trim().length\<close>. \<^verbatim>\<open>String.prototype.trim\<close> removes the white space and the
  line terminators of ECMAScript from both ends; \<open>whitespace\<close> lists their UTF-8 encodings
  (U+0009 to U+000D, U+0020, U+00A0, U+1680, U+2000 to U+200A, U+2028, U+2029, U+202F,
  U+205F, U+3000, U+FEFF). \<^verbatim>\<open>length\<close> counts UTF-16 code units: one for every code point
  below U+10000 and two above, that is one for every byte that starts an encoding of up to
  three bytes and two for a byte that starts one of four.
\<close>

definition whitespace :: "string list" where
  "whitespace =
     [[CHR 0x09], [CHR 0x0A], [CHR 0x0B], [CHR 0x0C], [CHR 0x0D], [CHR 0x20],
      [CHR 0xC2, CHR 0xA0], [CHR 0xE1, CHR 0x9A, CHR 0x80],
      [CHR 0xE2, CHR 0x80, CHR 0x80], [CHR 0xE2, CHR 0x80, CHR 0x81],
      [CHR 0xE2, CHR 0x80, CHR 0x82], [CHR 0xE2, CHR 0x80, CHR 0x83],
      [CHR 0xE2, CHR 0x80, CHR 0x84], [CHR 0xE2, CHR 0x80, CHR 0x85],
      [CHR 0xE2, CHR 0x80, CHR 0x86], [CHR 0xE2, CHR 0x80, CHR 0x87],
      [CHR 0xE2, CHR 0x80, CHR 0x88], [CHR 0xE2, CHR 0x80, CHR 0x89],
      [CHR 0xE2, CHR 0x80, CHR 0x8A], [CHR 0xE2, CHR 0x80, CHR 0xA8],
      [CHR 0xE2, CHR 0x80, CHR 0xA9], [CHR 0xE2, CHR 0x80, CHR 0xAF],
      [CHR 0xE2, CHR 0x81, CHR 0x9F], [CHR 0xE3, CHR 0x80, CHR 0x80],
      [CHR 0xEF, CHR 0xBB, CHR 0xBF]]"

fun strip :: "string list \<Rightarrow> string \<Rightarrow> string" where
  "strip ws [] = []"
| "strip ws (c # cs) =
     (case find (\<lambda>w. w \<noteq> [] \<and> take (length w) (c # cs) = w) ws of
        Some w \<Rightarrow> strip ws (drop (length w - 1) cs)
      | None \<Rightarrow> c # cs)"

definition trim :: "string \<Rightarrow> string" where
  "trim s = rev (strip (map rev whitespace) (rev (strip whitespace s)))"

definition code_units :: "char \<Rightarrow> nat" where
  "code_units c =
     (let b = (of_char c :: nat)
      in if 128 \<le> b \<and> b < 192 then 0 else if 240 \<le> b then 2 else 1)"

definition utf16_length :: "string \<Rightarrow> nat" where
  "utf16_length s = sum_list (map code_units s)"

definition analyzeResponseApproppriateness :: "ModerationJson option \<Rightarrow> string \<Rightarrow> Analysis" where
  "analyzeResponseApproppriateness reply response =
     (case reply of
        Some analysis \<Rightarrow>
          \<lparr>isAppropriate = json_isAppropriate analysis \<and> \<not> json_containsProfanity analysis
                            \<and> \<not> json_isAbusive analysis,
           isOnTopic = json_isOnTopic analysis,
           containsProfanity = json_containsProfanity analysis \<or> json_isAbusive analysis,
           severity = or_default (json_severity analysis) ''low'',
           reason = or_default (json_reason analysis) ''Response appears appropriate''\<rparr>
      | None \<Rightarrow>
          (let isSuspicious = utf16_length (trim response) < 5
           in \<lparr>isAppropriate = \<not> isSuspicious,
               isOnTopic = \<not> isSuspicious,
               containsProfanity = False,
               severity = (if isSuspicious then ''medium'' else ''low''),
               reason = (if isSuspicious then ''Very short response''
                         else ''Unable to analyze, assumed appropriate'')\<rparr>))"

record ModerationResponse =
  moderation_message :: string
  shouldTerminate :: bool

definition nl :: string where
  "nl = [CHR 0x0A]"

definition terminate_text :: string where
  "terminate_text = ''I need to end our interview session here. Professional communication is required for interview practice. Thank you for your time.''"

definition warning_text :: "nat \<Rightarrow> string \<Rightarrow> string" where
  "warning_text warningCount question =
     ''I need you to maintain professional communication during our interview. This is your ''
     @ (if warningCount = 1 then ''first'' else ''second'')
     @ '' warning. Let'' @ [CHR 0x27] @ ''s continue professionally. '' @ nl @ nl
     @ ''Let me repeat the question: '' @ question"

definition redirect_text :: "string \<Rightarrow> string" where
  "redirect_text question =
     ''I notice your response isn'' @ [CHR 0x27]
     @ ''t directly addressing the question I asked. Let me help redirect our conversation.''
     @ nl @ nl @ ''The question was: '' @ question @ nl @ nl
     @ ''Could you please provide a response that specifically addresses this question about your professional experience?''"

definition generateModerationResponse :: "Analysis \<Rightarrow> nat \<Rightarrow> string \<Rightarrow> ModerationResponse" where
  "generateModerationResponse analysis warningCount question =
     (if containsProfanity analysis \<or> severity analysis = ''high'' then
        (let warningCount = warningCount + 1
         in if warningCount \<ge> 2 then
              \<lparr>moderation_message = terminate_text, shouldTerminate = True\<rparr>
            else
              \<lparr>moderation_message = warning_text warningCount question, shouldTerminate = False\<rparr>)
      else if \<not> isOnTopic analysis then
        \<lparr>moderation_message = redirect_text question, shouldTerminate = False\<rparr>
      else \<lparr>moderation_message = [], shouldTerminate = False\<rparr>)"

section \<open>Planner decision\<close>

text \<open>
  \<^verbatim>\<open>makeAgenticDecision\<close> invokes the model outside its \<^verbatim>\<open>try\<close> (a failed invocation
  propagates) and parses the reply inside it. \<open>SyntaxError raw\<close> is a reply \<open>raw\<close> that
  \<^verbatim>\<open>JSON.parse\<close> rejects; \<open>ParsedJson v\<close> is a reply that parses to \<open>v\<close>. Reading a
  property of \<^verbatim>\<open>null\<close> throws inside the \<^verbatim>\<open>try\<close>; any other value answers its fields,
  \<^verbatim>\<open>undefined\<close> where it has none.
\<close>

datatype 'a parse_result = SyntaxError string | ParsedJson 'a

record PlannerJson =
  json_decision :: "string option"
  json_reasoning :: "string option"
  json_context :: "string option"

datatype planner_value = PlannerNull | PlannerFields PlannerJson

definition parse_fallback :: "int \<Rightarrow> AgenticDecision" where
  "parse_fallback clock =
     \<lparr>decision_timestamp = clock,
      decision = Some ''MOVE_NEXT'',
      reasoning = Some ''Default action due to parsing error'',
      decision_context = Some ''Failed to parse AI decision response''\<rparr>"

definition makeAgenticDecision :: "int \<Rightarrow> planner_value parse_result \<Rightarrow> AgenticDecision" where
  "makeAgenticDecision clock response =
     (case response of
        ParsedJson (PlannerFields d) \<Rightarrow>
          \<lparr>decision_timestamp = clock,
           decision = json_decision d,
           reasoning = json_reasoning d,
           decision_context = json_context d\<rparr>
      | ParsedJson PlannerNull \<Rightarrow> parse_fallback clock
      | SyntaxError raw \<Rightarrow> parse_fallback clock)"

section \<open>Turn orchestrator\<close>

text \<open>
  The answers one turn takes from outside the process. The four clock readings are, in the
  order of the source: \<^verbatim>\<open>new Date()\<close> at the start of \<^verbatim>\<open>sendMessage\<close>, \<^verbatim>\<open>new Date()\<close>
  inside \<^verbatim>\<open>makeAgenticDecision\<close>, \<^verbatim>\<open>Date.now()\<close> in the mock branch and \<^verbatim>\<open>Date.now()\<close>
  inside \<^verbatim>\<open>shouldEndInterview\<close>. A model reply is \<open>None\<close> when the invocation throws.
\<close>

record PracticeJson =
  json_score :: "score option"
  json_feedback :: string
  json_sampleAnswers :: "string list option"
  json_improvements :: "string list option"
  json_nextQuestion :: string

datatype practice_value = PracticeNull | PracticeFields PracticeJson

record turn_env =
  clock_now :: int
  clock_planner :: int
  clock_elapsed :: int
  clock_check :: int
  moderation_reply :: "ModerationJson option"
  planner_reply :: "planner_value parse_result option"
  question_reply :: "string option"
  feedback_reply :: "practice_value parse_result option"
  evaluation_reply :: "evaluation_value parse_result option"

text \<open>The calls a turn makes to the facade, in order; the planner call is \<open>DecisionCall\<close>,
  and \<open>NextQuestionCall\<close> carries the action handed to \<^verbatim>\<open>generateNextQuestion\<close>.\<close>

datatype llm_call =
    AnalyzeCall
  | ModerationCall
  | DecisionCall
  | NextQuestionCall "string option"
  | PracticeFeedbackCall
  | EvaluationCall

text \<open>The locals of \<^verbatim>\<open>sendMessage\<close> after the moderation, practice or mock branch; and
  the outcome of a turn: the document as the handler hands it to \<^verbatim>\<open>session.save()\<close>, the
  reply and the calls made.\<close>

record turn_locals =
  session :: InterviewSession
  aiResponse :: string
  practiceScore :: "score option"
  shouldEndSession :: bool
  calls :: "llm_call list"

record turn_result =
  saved :: InterviewSession
  reply :: string
  llm_calls :: "llm_call list"

definition process_failed :: http_error where
  "process_failed = ServerError ''Failed to process message''"

definition lastQuestion :: "Message list \<Rightarrow> string" where
  "lastQuestion ms =
     (case rev (filter (\<lambda>msg. role msg = Assistant) ms) of
        [] \<Rightarrow> ''Previous question''
      | m # _ \<Rightarrow> if content m = [] then ''Previous question'' else content m)"

definition warningCount :: "AgenticDecision list \<Rightarrow> nat" where
  "warningCount ds = length (filter (\<lambda>d. decision d = Some ''MODERATE'') ds)"

definition set_phase :: "phase \<Rightarrow> InterviewSession \<Rightarrow> InterviewSession" where
  "set_phase p s = s\<lparr>state := (state s)\<lparr>phase := p\<rparr>\<rparr>"

definition log_decision :: "AgenticDecision \<Rightarrow> InterviewSession \<Rightarrow> InterviewSession" where
  "log_decision d s = s\<lparr>agenticDecisions := agenticDecisions s @ [d]\<rparr>"

definition freeze :: "int \<Rightarrow> InterviewSession \<Rightarrow> InterviewSession" where
  "freeze now s = s\<lparr>state := (state s)\<lparr>isActive := False, endTime := Some now, phase := Completed\<rparr>\<rparr>"

text \<open>
  The branch taken when \<^verbatim>\<open>!contentAnalysis.isAppropriate || contentAnalysis.containsProfanity\<close>.
  When the moderation message is empty, neither arm of the source runs and the reply stays
  \<^verbatim>\<open>''\<close>.
\<close>

definition moderation_branch ::
  "int \<Rightarrow> Analysis \<Rightarrow> nat \<Rightarrow> string \<Rightarrow> InterviewSession \<Rightarrow> turn_locals" where
  "moderation_branch now contentAnalysis warnings question s =
     (let moderationResponse = generateModerationResponse contentAnalysis warnings question
      in if shouldTerminate moderationResponse then
           \<lparr>session = log_decision
                \<lparr>decision_timestamp = now, decision = Some ''TERMINATE'',
                 reasoning = Some ''Session terminated due to inappropriate behavior'',
                 decision_context = Some (reason contentAnalysis)\<rparr> (freeze now s),
            aiResponse = moderation_message moderationResponse,
            practiceScore = None,
            shouldEndSession = True,
            calls = [AnalyzeCall, ModerationCall]\<rparr>
         else if moderation_message moderationResponse \<noteq> [] then
           \<lparr>session = log_decision
                \<lparr>decision_timestamp = now, decision = Some ''MODERATE'',
                 reasoning = Some ''Inappropriate or off-topic response detected'',
                 decision_context = Some (reason contentAnalysis)\<rparr> s,
            aiResponse = moderation_message moderationResponse,
            practiceScore = None,
            shouldEndSession = False,
            calls = [AnalyzeCall, ModerationCall]\<rparr>
         else
           \<lparr>session = s, aiResponse = [], practiceScore = None, shouldEndSession = False,
            calls = [AnalyzeCall, ModerationCall]\<rparr>)"

text \<open>
  Practice mode. The template reads \<^verbatim>\<open>sampleAnswers[0..4]\<close> and \<^verbatim>\<open>improvements[0..2]\<close>; a
  missing array, or a parsed \<^verbatim>\<open>null\<close>, throws inside the \<^verbatim>\<open>try\<close> and the canned reply is
  used, while \<^verbatim>\<open>practiceEvaluation\<close> keeps the parsed value. A missing element prints as
  \<^verbatim>\<open>undefined\<close>; the bullet of the template is its three UTF-8 bytes.
\<close>

definition printed_at :: "string list \<Rightarrow> int \<Rightarrow> string" where
  "printed_at xs i = (case at_index xs i of Some x \<Rightarrow> x | None \<Rightarrow> ''undefined'')"

definition printed :: "score option \<Rightarrow> string" where
  "printed v =
     (case v of
        Some (NumericScore t) \<Rightarrow> t
      | Some (UncastableScore t) \<Rightarrow> t
      | None \<Rightarrow> ''undefined'')"

definition bullet :: string where
  "bullet = [CHR 0xE2, CHR 0x80, CHR 0xA2]"

definition canned_feedback :: string where
  "canned_feedback = ''Great answer! Let me ask you the next question...''"

definition feedback_text :: "PracticeJson \<Rightarrow> string list \<Rightarrow> string list \<Rightarrow> string" where
  "feedback_text p answers improvements =
     ''Your Score: '' @ printed (json_score p) @ ''/5'' @ nl @ nl
     @ ''Feedback: '' @ json_feedback p @ nl @ nl
     @ ''Sample Answers:'' @ nl
     @ ''1. '' @ printed_at answers 0 @ nl
     @ ''2. '' @ printed_at answers 1 @ nl
     @ ''3. '' @ printed_at answers 2 @ nl
     @ ''4. '' @ printed_at answers 3 @ nl
     @ ''5. '' @ printed_at answers 4 @ nl @ nl
     @ ''Improvements:'' @ nl
     @ bullet @ '' '' @ printed_at improvements 0 @ nl
     @ bullet @ '' '' @ printed_at improvements 1 @ nl
     @ bullet @ '' '' @ printed_at improvements 2 @ nl @ nl
     @ ''Next Question: '' @ json_nextQuestion p"

definition practice_branch :: "turn_env \<Rightarrow> InterviewSession \<Rightarrow> http_error + turn_locals" where
  "practice_branch env s =
     (case feedback_reply env of
        None \<Rightarrow> Inl process_failed
      | Some (SyntaxError raw) \<Rightarrow>
          Inr \<lparr>session = s, aiResponse = canned_feedback, practiceScore = None,
               shouldEndSession = False, calls = [AnalyzeCall, PracticeFeedbackCall]\<rparr>
      | Some (ParsedJson PracticeNull) \<Rightarrow>
          Inr \<lparr>session = s, aiResponse = canned_feedback, practiceScore = None,
               shouldEndSession = False, calls = [AnalyzeCall, PracticeFeedbackCall]\<rparr>
      | Some (ParsedJson (PracticeFields p)) \<Rightarrow>
          Inr \<lparr>session = s,
               aiResponse =
                 (case (json_sampleAnswers p, json_improvements p) of
                    (Some answers, Some improvements) \<Rightarrow> feedback_text p answers improvements
                  | _ \<Rightarrow> canned_feedback),
               practiceScore = json_score p,
               shouldEndSession = False,
               calls = [AnalyzeCall, PracticeFeedbackCall]\<rparr>)"

text \<open>
  Mock mode: the planner's decision is logged as it came, then governed. A \<^verbatim>\<open>WRAP_UP\<close> that
  comes too early is handed to \<^verbatim>\<open>generateNextQuestion\<close> as \<^verbatim>\<open>MOVE_NEXT\<close>.
  \<^verbatim>\<open>
  const minTimeElapsed = session.config.durationMinutes * 0.8;
  const minQuestions = Math.max(3, Math.ceil(session.config.durationMinutes / 5));
  const canWrapUp = elapsedMinutes >= minTimeElapsed && session.state.questionsAsked >= minQuestions;
  \<close>
  The literal \<^verbatim>\<open>0.8\<close> is the double nearest to 8/10, and the product and the quotient round.
\<close>

definition minTimeElapsed :: "rat \<Rightarrow> rat" where
  "minTimeElapsed duration = double (duration * double (8 / 10))"

definition minQuestions :: "rat \<Rightarrow> int" where
  "minQuestions duration = max 3 \<lceil>double (duration / 5)\<rceil>"

definition canWrapUp :: "rat \<Rightarrow> rat \<Rightarrow> nat \<Rightarrow> bool" where
  "canWrapUp elapsed duration asked =
     (elapsed \<ge> minTimeElapsed duration \<and> int asked \<ge> minQuestions duration)"

definition generateNextQuestion ::
  "turn_env \<Rightarrow> string option \<Rightarrow> InterviewSession \<Rightarrow> bool \<Rightarrow> llm_call list
     \<Rightarrow> http_error + turn_locals" where
  "generateNextQuestion env action s ending made =
     (case question_reply env of
        None \<Rightarrow> Inl process_failed
      | Some text \<Rightarrow>
          Inr \<lparr>session = s, aiResponse = text, practiceScore = None, shouldEndSession = ending,
               calls = made @ [NextQuestionCall action]\<rparr>)"

definition mock_branch :: "turn_env \<Rightarrow> InterviewSession \<Rightarrow> http_error + turn_locals" where
  "mock_branch env s =
     (case planner_reply env of
        None \<Rightarrow> Inl process_failed
      | Some response \<Rightarrow>
          (let d = makeAgenticDecision (clock_planner env) response;
               s = log_decision d s;
               elapsed = (case startTime (state s) of
                            Some start \<Rightarrow> elapsedMinutes (clock_elapsed env) start
                          | None \<Rightarrow> 0);
               made = [AnalyzeCall, DecisionCall]
           in if decision d = Some ''WRAP_UP'' then
                (if canWrapUp elapsed (durationMinutes (config s)) (questionsAsked (state s)) then
                   generateNextQuestion env (decision d) (set_phase WrapUp s) True made
                 else
                   generateNextQuestion env (Some ''MOVE_NEXT'') (set_phase (phase (state s)) s)
                     False made)
              else if decision d = Some ''CHANGE_PHASE'' then
                generateNextQuestion env (decision d)
                  (set_phase (getNextPhase (phase (state s))) s) False made
              else
                generateNextQuestion env (decision d) (set_phase (phase (state s)) s) False made))"

text \<open>
  The end of the turn, up to the call of \<^verbatim>\<open>session.save()\<close>: the assistant message is
  appended, then \<^verbatim>\<open>shouldEndSession || this.shouldEndInterview(...)\<close> decides whether the
  session is frozen, and the evaluation is generated \<^verbatim>\<open>if (!shouldEndSession)\<close>. The field
  \<open>saved\<close> of the result is the document in memory at that point; whether it is stored is
  decided by \<open>save\<close> below.
\<close>

definition finish_turn :: "turn_env \<Rightarrow> turn_locals \<Rightarrow> http_error + turn_result" where
  "finish_turn env l =
     (let s = session l;
          s = s\<lparr>messages := messages s @
                 [\<lparr>role = Assistant, content = aiResponse l, timestamp = clock_now env,
                   metadata = Some \<lparr>questionType = phase (state s),
                                    isFollowUp = (interviewMode (config s) = Some Practice),
                                    evaluationScore = practiceScore l\<rparr>\<rparr>]\<rparr>
      in if shouldEndSession l
            \<or> shouldEndInterview (state s) (durationMinutes (config s)) (clock_check env) then
           (let s = freeze (clock_now env) s
            in if \<not> shouldEndSession l then
                 (case evaluation_reply env of
                    None \<Rightarrow> Inl process_failed
                  | Some (ParsedJson v) \<Rightarrow>
                      Inr \<lparr>saved = s\<lparr>evaluation := Some (ParsedEvaluation v)\<rparr>,
                           reply = aiResponse l, llm_calls = calls l @ [EvaluationCall]\<rparr>
                  | Some (SyntaxError raw) \<Rightarrow>
                      Inr \<lparr>saved = s\<lparr>evaluation := Some FallbackEvaluation\<rparr>,
                           reply = aiResponse l, llm_calls = calls l @ [EvaluationCall]\<rparr>)
               else Inr \<lparr>saved = s, reply = aiResponse l, llm_calls = calls l\<rparr>)
         else Inr \<lparr>saved = s, reply = aiResponse l, llm_calls = calls l\<rparr>)"

text \<open>
  The first step of a turn: the user message is appended, \<^verbatim>\<open>lastActivity\<close> is set and
  \<^verbatim>\<open>questionsAsked\<close> is incremented, before anything is classified.
\<close>

definition receive :: "int \<Rightarrow> string \<Rightarrow> InterviewSession \<Rightarrow> InterviewSession" where
  "receive now message s =
     s\<lparr>messages := messages s @ [\<lparr>role = User, content = message, timestamp = now, metadata = None\<rparr>],
       state := (state s)\<lparr>lastActivity := now, questionsAsked := questionsAsked (state s) + 1\<rparr>\<rparr>"

definition turn_body :: "turn_env \<Rightarrow> string \<Rightarrow> InterviewSession \<Rightarrow> http_error + turn_locals" where
  "turn_body env message s0 =
     (let s = receive (clock_now env) message s0;
          question = lastQuestion (messages s);
          warnings = warningCount (agenticDecisions s);
          contentAnalysis = analyzeResponseApproppriateness (moderation_reply env) message
      in if \<not> isAppropriate contentAnalysis \<or> containsProfanity contentAnalysis then
           Inr (moderation_branch (clock_now env) contentAnalysis warnings question s)
         else if interviewMode (config s) = Some Practice then practice_branch env s
         else mock_branch env s)"

text \<open>
  \<^verbatim>\<open>await session.save()\<close>: the document is stored when it validates against the schema;
  otherwise \<^verbatim>\<open>save()\<close> rejects, the \<^verbatim>\<open>catch\<close> answers 500 and the stored document stays as
  it was.
\<close>

definition save :: "turn_result \<Rightarrow> http_error + turn_result" where
  "save r = (if validates (saved r) then Inr r else Inl process_failed)"

text \<open>
  \<^verbatim>\<open>sendMessage\<close> on the session document the store returned for \<^verbatim>\<open>sessionId\<close> (the lookup
  that answers 404 is not part of the model). With no active provider every facade call
  throws, the first of them before anything is saved. The result \<open>Inr r\<close> is the answer 200
  together with the document that \<^verbatim>\<open>session.save()\<close> stored; an error answer leaves the
  stored document as it was.
\<close>

definition sendMessage ::
  "LLMService \<Rightarrow> turn_env \<Rightarrow> string \<Rightarrow> InterviewSession \<Rightarrow> http_error + turn_result" where
  "sendMessage svc env message s =
     (if message = [] then
        Inl (BadRequest ''Missing required fields: sessionId and message are required'')
      else if \<not> isActive (state s) then Inl (BadRequest ''Interview session has ended'')
      else if activeService svc = None then Inl process_failed
      else (case turn_body env message s of
              Inl e \<Rightarrow> Inl e
            | Inr l \<Rightarrow> (case finish_turn env l of Inl e \<Rightarrow> Inl e | Inr r \<Rightarrow> save r)))"

section \<open>Session creation and runs\<close>

record CreateSessionRequest =
  req_role :: string
  req_seniority :: string
  req_interviewTypes :: "string list option"
  req_durationMinutes :: "rat option"
  req_interviewMode :: "interviewMode option"

record create_env =
  create_clock :: int
  create_probe :: probe_env
  initial_question :: "string option"

text \<open>
  \<^verbatim>\<open>createSession\<close>: the request is checked (400), the provider probed (503), the first
  question generated, and the new document saved; a generation that throws and a document
  that does not validate both answer 500. The document is built through the schema, which
  drops \<^verbatim>\<open>interviewMode\<close>.
\<close>

definition createSession ::
  "LLMService \<Rightarrow> create_env \<Rightarrow> CreateSessionRequest \<Rightarrow> http_error + InterviewSession" where
  "createSession svc env req =
     (let missing = Inl (BadRequest
            ''Missing required fields: role, seniority, and interviewTypes are required'');
          failed = Inl (ServerError ''Failed to create interview session'')
      in case req_interviewTypes req of
           None \<Rightarrow> missing
         | Some types \<Rightarrow>
             if req_role req = [] \<or> req_seniority req = [] \<or> types = [] then missing
             else if \<not> testConnection svc (create_probe env) then
               Inl (ServiceUnavailable
                 ''AI service is currently unavailable. Please check your LLM configuration.'')
             else (case initial_question env of
                     None \<Rightarrow> failed
                   | Some initialQuestion \<Rightarrow>
                       (let session =
                          \<lparr>config =
                             \<lparr>config_role = req_role req,
                              seniority = req_seniority req,
                              interviewTypes = types,
                              durationMinutes =
                                (case req_durationMinutes req of None \<Rightarrow> 30 | Some d \<Rightarrow> d),
                              interviewMode = None\<rparr>,
                           state =
                             \<lparr>phase = Warmup, currentQuestionIndex = 0, questionsAsked = 0,
                              startTime = Some (create_clock env), endTime = None,
                              lastActivity = create_clock env, isActive = True\<rparr>,
                           messages =
                             [\<lparr>role = Assistant, content = initialQuestion,
                               timestamp = create_clock env, metadata = None\<rparr>],
                           evaluation = None,
                           agenticDecisions = []\<rparr>
                        in if validates session then Inr session else failed)))"

text \<open>
  A run sends the messages one after the other; a message that is answered with an error
  leaves the stored session as it was.
\<close>

fun run_turns :: "LLMService \<Rightarrow> InterviewSession \<Rightarrow> (turn_env \<times> string) list \<Rightarrow> InterviewSession" where
  "run_turns svc s [] = s"
| "run_turns svc s (em # ems) =
     (case sendMessage svc (fst em) (snd em) s of
        Inl e \<Rightarrow> run_turns svc s ems
      | Inr r \<Rightarrow> run_turns svc (saved r) ems)"

text \<open>The session documents the program can hold: created by \<^verbatim>\<open>createSession\<close>, rewritten
  only by \<^verbatim>\<open>sendMessage\<close>.\<close>

inductive reachable :: "InterviewSession \<Rightarrow> bool" where
  created: "createSession svc cenv req = Inr s \<Longrightarrow> reachable s"
| turn: "reachable s \<Longrightarrow> sendMessage svc env message s = Inr r \<Longrightarrow> reachable (saved r)"

definition frozen :: "InterviewSession \<Rightarrow> bool" where
  "frozen s = (\<not> isActive (state s) \<and> endTime (state s) \<noteq> None \<and> phase (state s) = Completed)"

section \<open>Vocabulary of the properties\<close>

text \<open>How a turn is classified, and what the planner proposes on it.\<close>

definition classification :: "turn_env \<Rightarrow> string \<Rightarrow> Analysis" where
  "classification env message = analyzeResponseApproppriateness (moderation_reply env) message"

definition passes_moderation :: "turn_env \<Rightarrow> string \<Rightarrow> bool" where
  "passes_moderation env message =
     (isAppropriate (classification env message) \<and> \<not> containsProfanity (classification env message))"

definition proposes :: "turn_env \<Rightarrow> string option \<Rightarrow> bool" where
  "proposes env action =
     (case planner_reply env of
        None \<Rightarrow> False
      | Some response \<Rightarrow> decision (makeAgenticDecision (clock_planner env) response) = action)"

text \<open>
  The replies of a turn can be stored: the planner's invocation returns a decision with its
  three texts, the content invocation returns a text that is not empty, and the evaluation
  invocation returns a reply that does not parse (the fallback is stored) or parses to a
  value the schema accepts.
\<close>

definition storable_evaluation :: "evaluation_value parse_result \<Rightarrow> bool" where
  "storable_evaluation v =
     (case v of SyntaxError raw \<Rightarrow> True | ParsedJson j \<Rightarrow> valid_evaluation (ParsedEvaluation j))"

definition storable_replies :: "turn_env \<Rightarrow> bool" where
  "storable_replies env =
     ((case planner_reply env of
         None \<Rightarrow> False
       | Some response \<Rightarrow> valid_decision (makeAgenticDecision (clock_planner env) response))
      \<and> (case question_reply env of None \<Rightarrow> False | Some text \<Rightarrow> text \<noteq> [])
      \<and> (case evaluation_reply env of None \<Rightarrow> False | Some v \<Rightarrow> storable_evaluation v))"

text \<open>A turn of a planner that proposes \<^verbatim>\<open>MOVE_NEXT\<close>: the message is not empty and passes
  moderation, and the replies can be stored.\<close>

definition move_next_turn :: "turn_env \<times> string \<Rightarrow> bool" where
  "move_next_turn em =
     (snd em \<noteq> [] \<and> passes_moderation (fst em) (snd em) \<and> proposes (fst em) (Some ''MOVE_NEXT'')
      \<and> storable_replies (fst em))"

definition last_decision :: "InterviewSession \<Rightarrow> AgenticDecision option" where
  "last_decision s = (case rev (agenticDecisions s) of [] \<Rightarrow> None | d # _ \<Rightarrow> Some d)"

text \<open>The elapsed minutes the governor reads in the mock branch (0 when \<^verbatim>\<open>startTime\<close> is
  unset).\<close>

definition governor_elapsed :: "turn_env \<Rightarrow> InterviewSession \<Rightarrow> rat" where
  "governor_elapsed env s =
     (case startTime (state s) of
        Some start \<Rightarrow> elapsedMinutes (clock_elapsed env) start
      | None \<Rightarrow> 0)"

text \<open>A turn whose moderation outcome is a warning or a redirection: the moderation branch
  ran, did not terminate, and produced a message.\<close>

definition moderated :: "turn_locals \<Rightarrow> bool" where
  "moderated l = (ModerationCall \<in> set (calls l) \<and> \<not> shouldEndSession l \<and> aiResponse l \<noteq> [])"

text \<open>The entry the moderation branch logs for a warning or a redirection.\<close>

definition warning_entry :: "int \<Rightarrow> string \<Rightarrow> AgenticDecision" where
  "warning_entry now why =
     \<lparr>decision_timestamp = now, decision = Some ''MODERATE'',
      reasoning = Some ''Inappropriate or off-topic response detected'',
      decision_context = Some why\<rparr>"

subsection \<open>Concrete sessions and turns\<close>

definition demo_startup :: startup_env where
  "demo_startup = \<lparr>useBedrock = True, bedrock_constructed = True, bedrock_connected = False,
                    ollama_constructed = True, ollama_connected = True\<rparr>"

definition demo_service :: LLMService where
  "demo_service = initializeServices demo_startup"

definition demo_request :: CreateSessionRequest where
  "demo_request = \<lparr>req_role = ''Software Engineer'', req_seniority = ''Senior'',
                    req_interviewTypes = Some [''Technical''], req_durationMinutes = None,
                    req_interviewMode = Some Practice\<rparr>"

definition demo_create_env :: create_env where
  "demo_create_env = \<lparr>create_clock = 0,
                       create_probe = \<lparr>bedrock_reachable = False, ollama_reachable = True\<rparr>,
                       initial_question = Some ''Tell me about yourself.''\<rparr>"

text \<open>The session \<^verbatim>\<open>createSession\<close> answers to \<open>demo_request\<close>: 30 minutes, started at
  time 0; and the one it answers when the request asks for 3 minutes.\<close>

definition demo_session :: InterviewSession where
  "demo_session =
     \<lparr>config = \<lparr>config_role = ''Software Engineer'', seniority = ''Senior'',
                interviewTypes = [''Technical''], durationMinutes = 30, interviewMode = None\<rparr>,
      state = \<lparr>phase = Warmup, currentQuestionIndex = 0, questionsAsked = 0,
               startTime = Some 0, endTime = None, lastActivity = 0, isActive = True\<rparr>,
      messages = [\<lparr>role = Assistant, content = ''Tell me about yourself.'', timestamp = 0,
                   metadata = None\<rparr>],
      evaluation = None,
      agenticDecisions = []\<rparr>"

definition short_session :: InterviewSession where
  "short_session = demo_session\<lparr>config := (config demo_session)\<lparr>durationMinutes := 3\<rparr>\<rparr>"

definition clean_json :: ModerationJson where
  "clean_json = \<lparr>json_isAppropriate = True, json_isOnTopic = True, json_containsProfanity = False,
                 json_isAbusive = False, json_severity = None, json_reason = None\<rparr>"

definition planner_says :: "string \<Rightarrow> planner_value parse_result option" where
  "planner_says action =
     Some (ParsedJson (PlannerFields
       \<lparr>json_decision = Some action, json_reasoning = Some ''because'', json_context = Some ''seen''\<rparr>))"

definition fair_evaluation :: EvaluationJson where
  "fair_evaluation =
     \<lparr>communication_score = Some 4, technicalDepth_score = Some 3, problemSolving_score = Some 4,
      leadership_score = Some 3, overall_score = Some 4, overall_recommendation = Some ''Hire''\<rparr>"

text \<open>The evaluation that copies the values of the example in the evaluation prompt: every
  score is 0 and the recommendation is \<^verbatim>\<open>Strong Hire\<close>.\<close>

definition template_evaluation :: EvaluationJson where
  "template_evaluation =
     \<lparr>communication_score = Some 0, technicalDepth_score = Some 0, problemSolving_score = Some 0,
      leadership_score = Some 0, overall_score = Some 0,
      overall_recommendation = Some ''Strong Hire''\<rparr>"

text \<open>A turn one minute after the start of \<open>demo_session\<close>, with a clean classification and
  a planner that proposes \<^verbatim>\<open>MOVE_NEXT\<close>.\<close>

definition demo_env :: turn_env where
  "demo_env =
     \<lparr>clock_now = 60000, clock_planner = 60001, clock_elapsed = 60002, clock_check = 60003,
      moderation_reply = Some clean_json,
      planner_reply = planner_says ''MOVE_NEXT'',
      question_reply = Some ''What was your hardest project?'',
      feedback_reply = None,
      evaluation_reply = Some (ParsedJson (EvaluationObject fair_evaluation))\<rparr>"

section \<open>Frame and invariant lemmas\<close>

lemma maxQuestions_30: "maxQuestions 30 = 7"
  by code_simp

lemma minQuestions_30: "minQuestions 30 = 6"
  by code_simp

lemma getNextPhase_cases:
  "getNextPhase p =
     (case p of Setup \<Rightarrow> Warmup | Warmup \<Rightarrow> Behavioral | Behavioral \<Rightarrow> Technical
      | Technical \<Rightarrow> SystemDesign | SystemDesign \<Rightarrow> Product | Product \<Rightarrow> WrapUp
      | WrapUp \<Rightarrow> WrapUp | Completed \<Rightarrow> Warmup)"
  by (cases p) (simp_all add: getNextPhase_def phases_def at_index_def)

lemma facade_run_id: "facade_run svc cws = svc"
  by (induction cws arbitrary: svc) (auto simp: facade_step_def split: facade_call.splits)

lemma demo_created: "createSession demo_service demo_create_env demo_request = Inr demo_session"
  by code_simp

lemma short_created:
  "createSession demo_service demo_create_env (demo_request\<lparr>req_durationMinutes := Some 3\<rparr>)
     = Inr short_session"
  by code_simp

lemma demo_service_active: "activeService demo_service = Some OllamaService"
  by (simp add: demo_service_def demo_startup_def initializeServices_def)

lemma answered: "(case x of Inl e \<Rightarrow> False | Inr r \<Rightarrow> P r) \<Longrightarrow> \<exists>r. x = Inr r \<and> P r"
  by (cases x) auto

lemma turn_body_frame:
  "turn_body env m s = Inr l \<Longrightarrow>
     config (session l) = config s \<and> startTime (state (session l)) = startTime (state s)
     \<and> questionsAsked (state (session l)) = questionsAsked (state s) + 1
     \<and> currentQuestionIndex (state (session l)) = currentQuestionIndex (state s)
     \<and> lastActivity (state (session l)) = clock_now env
     \<and> evaluation (session l) = evaluation s"
  by (auto simp: turn_body_def receive_def moderation_branch_def practice_branch_def mock_branch_def
        generateNextQuestion_def log_decision_def freeze_def set_phase_def Let_def
      split: if_splits option.splits parse_result.splits practice_value.splits prod.splits)

lemma finish_turn_frame:
  "finish_turn env l = Inr r \<Longrightarrow>
     config (saved r) = config (session l) \<and> startTime (state (saved r)) = startTime (state (session l))
     \<and> questionsAsked (state (saved r)) = questionsAsked (state (session l))
     \<and> currentQuestionIndex (state (saved r)) = currentQuestionIndex (state (session l))
     \<and> lastActivity (state (saved r)) = lastActivity (state (session l))
     \<and> agenticDecisions (saved r) = agenticDecisions (session l)
     \<and> reply r = aiResponse l \<and> set (calls l) \<subseteq> set (llm_calls r)"
  by (auto simp: finish_turn_def freeze_def Let_def split: if_splits option.splits parse_result.splits)

lemma finish_turn_ends:
  "finish_turn env l = Inr r \<Longrightarrow>
   shouldEndSession l
     \<or> shouldEndInterview (state (session l)) (durationMinutes (config (session l)))
          (clock_check env) \<Longrightarrow>
   frozen (saved r) \<and> endTime (state (saved r)) = Some (clock_now env)"
  by (auto simp: finish_turn_def freeze_def frozen_def Let_def
      split: if_splits option.splits parse_result.splits)

lemma finish_turn_continues:
  "finish_turn env l = Inr r \<Longrightarrow> \<not> shouldEndSession l \<Longrightarrow>
   \<not> shouldEndInterview (state (session l)) (durationMinutes (config (session l)))
       (clock_check env) \<Longrightarrow>
   state (saved r) = state (session l) \<and> evaluation (saved r) = evaluation (session l)
   \<and> llm_calls r = calls l"
  by (auto simp: finish_turn_def freeze_def frozen_def Let_def
      split: if_splits option.splits parse_result.splits)

lemma sendMessage_Inr:
  "sendMessage svc env m s = Inr r \<Longrightarrow>
   m \<noteq> [] \<and> isActive (state s) \<and> activeService svc \<noteq> None \<and> validates (saved r)
   \<and> (\<exists>l. turn_body env m s = Inr l \<and> finish_turn env l = Inr r)"
  by (auto simp: sendMessage_def save_def split: if_splits sum.splits)

lemma sendMessage_answers:
  "m \<noteq> [] \<Longrightarrow> isActive (state s) \<Longrightarrow> activeService svc \<noteq> None \<Longrightarrow>
   turn_body env m s = Inr l \<Longrightarrow> finish_turn env l = Inr r \<Longrightarrow> validates (saved r) \<Longrightarrow>
   sendMessage svc env m s = Inr r"
  by (simp add: sendMessage_def save_def)

lemma sendMessage_frame:
  assumes "sendMessage svc env m s = Inr r"
  shows "config (saved r) = config s" "startTime (state (saved r)) = startTime (state s)"
    "questionsAsked (state (saved r)) = questionsAsked (state s) + 1"
  using sendMessage_Inr[OF assms] turn_body_frame finish_turn_frame by (metis)+

lemma created_startTime:
  "createSession svc cenv req = Inr s \<Longrightarrow>
   startTime (state s) = Some (create_clock cenv) \<and> questionsAsked (state s) = 0
   \<and> isActive (state s) \<and> activeService svc \<noteq> None \<and> validates s
   \<and> interviewMode (config s) = None"
  by (auto simp: createSession_def Let_def testConnection_def getService_def
      split: option.splits if_splits)

lemma reachable_startTime: "reachable s \<Longrightarrow> startTime (state s) \<noteq> None"
  by (induction rule: reachable.induct) (auto simp: created_startTime sendMessage_frame)

lemma reachable_validates: "reachable s \<Longrightarrow> validates s"
  by (induction rule: reachable.induct) (auto simp: created_startTime sendMessage_Inr)

lemma reachable_mock: "reachable s \<Longrightarrow> interviewMode (config s) = None"
  by (induction rule: reachable.induct) (auto simp: created_startTime sendMessage_frame)

lemma reachable_run_turns: "reachable s \<Longrightarrow> reachable (run_turns svc s ems)"
  by (induction ems arbitrary: s) (auto intro: reachable.turn split: sum.splits)

lemma run_turns_append:
  "run_turns svc s (ems @ ems') = run_turns svc (run_turns svc s ems) ems'"
  by (induction ems arbitrary: s) (auto split: sum.splits)

lemma inactive_rejected:
  "\<not> isActive (state s) \<Longrightarrow> \<exists>e. sendMessage svc env m s = Inl (BadRequest e)"
  by (simp add: sendMessage_def)

lemma run_turns_inactive: "\<not> isActive (state s) \<Longrightarrow> run_turns svc s ems = s"
  by (induction ems) (auto simp: sendMessage_def)

lemma turn_body_active:
  "turn_body env m s = Inr l \<Longrightarrow> \<not> shouldEndSession l \<Longrightarrow>
     isActive (state (session l)) = isActive (state s) \<and> endTime (state (session l)) = endTime (state s)"
  by (auto simp: turn_body_def receive_def moderation_branch_def practice_branch_def mock_branch_def
        generateNextQuestion_def log_decision_def freeze_def set_phase_def Let_def
      split: if_splits option.splits parse_result.splits practice_value.splits prod.splits)

lemma turn_outcome:
  assumes "sendMessage svc env m s = Inr r"
  shows "frozen (saved r) \<or>
         (isActive (state (saved r)) \<and>
          (\<forall>start. startTime (state s) = Some start \<longrightarrow>
             int (questionsAsked (state s)) + 1 < maxQuestions (durationMinutes (config s))
             \<and> elapsedMinutes (clock_check env) start < durationMinutes (config s)))"
proof -
  from sendMessage_Inr[OF assms] obtain l where
    act: "isActive (state s)" and tb: "turn_body env m s = Inr l" and ft: "finish_turn env l = Inr r"
    by blast
  let ?ends = "shouldEndSession l \<or>
      shouldEndInterview (state (session l)) (durationMinutes (config (session l))) (clock_check env)"
  show ?thesis
  proof (cases ?ends)
    case True
    then show ?thesis using finish_turn_ends[OF ft] by blast
  next
    case False
    then have st: "state (saved r) = state (session l)"
      using finish_turn_continues[OF ft] by blast
    have "isActive (state (session l))"
      using turn_body_active[OF tb] False act by blast
    moreover have "\<forall>start. startTime (state s) = Some start \<longrightarrow>
             int (questionsAsked (state s)) + 1 < maxQuestions (durationMinutes (config s))
             \<and> elapsedMinutes (clock_check env) start < durationMinutes (config s)"
      using False turn_body_frame[OF tb] by (auto simp: shouldEndInterview_def)
    ultimately show ?thesis using st by simp
  qed
qed

lemma reachable_questions:
  "reachable s \<Longrightarrow> isActive (state s) \<Longrightarrow>
   int (questionsAsked (state s)) < maxQuestions (durationMinutes (config s))"
proof (induction rule: reachable.induct)
  case (created svc cenv req s)
  then show ?case using created_startTime[of svc cenv req s] by (simp add: maxQuestions_def)
next
  case (turn s svc env message r)
  from reachable_startTime[OF turn.hyps(1)] obtain start where
    start: "startTime (state s) = Some start" by blast
  from turn_outcome[OF turn.hyps(2)] turn.prems start sendMessage_frame[OF turn.hyps(2)]
  show ?case by (auto simp: frozen_def)
qed

lemma redirect_text_nonempty: "redirect_text q \<noteq> []"
  by (simp add: redirect_text_def)

lemma warning_text_nonempty: "warning_text n q \<noteq> []"
  by (simp add: warning_text_def)

lemma terminate_text_nonempty: "terminate_text \<noteq> []"
  by (simp add: terminate_text_def)

lemma reason_nonempty: "reason (analyzeResponseApproppriateness rep m) \<noteq> []"
  by (auto simp: analyzeResponseApproppriateness_def or_default_def Let_def split: option.splits)

lemma lastQuestion_user:
  "lastQuestion (ms @ [\<lparr>role = User, content = m, timestamp = now, metadata = None\<rparr>]) = lastQuestion ms"
  by (simp add: lastQuestion_def)

lemma lastQuestion_last:
  "ms = before @ m # rest \<Longrightarrow> role m = Assistant \<Longrightarrow> content m \<noteq> [] \<Longrightarrow>
   \<forall>x\<in>set rest. role x \<noteq> Assistant \<Longrightarrow> lastQuestion ms = content m"
  by (simp add: lastQuestion_def filter_empty_conv[THEN iffD2])

lemma receive_simps:
  "config (receive now m s) = config s"
  "agenticDecisions (receive now m s) = agenticDecisions s"
  "evaluation (receive now m s) = evaluation s"
  "messages (receive now m s) = messages s @ [\<lparr>role = User, content = m, timestamp = now, metadata = None\<rparr>]"
  "state (receive now m s) = (state s)\<lparr>lastActivity := now, questionsAsked := questionsAsked (state s) + 1\<rparr>"
  by (simp_all add: receive_def)

lemma validates_saved:
  "finish_turn env l = Inr r \<Longrightarrow>
   validates (saved r) \<longleftrightarrow>
     valid_config (config (session l)) \<and> list_all valid_message (messages (session l))
     \<and> aiResponse l \<noteq> [] \<and> (\<forall>t. practiceScore l \<noteq> Some (UncastableScore t))
     \<and> list_all valid_decision (agenticDecisions (session l))
     \<and> (case evaluation (saved r) of None \<Rightarrow> True | Some e \<Rightarrow> valid_evaluation e)"
  by (auto simp: finish_turn_def validates_def valid_message_def freeze_def Let_def
      split: if_splits option.splits parse_result.splits score.splits)

lemma finish_turn_evaluation:
  "finish_turn env l = Inr r \<Longrightarrow>
   evaluation (saved r) = evaluation (session l)
   \<or> (\<exists>v. evaluation_reply env = Some v \<and>
        evaluation (saved r) =
          Some (case v of SyntaxError raw \<Rightarrow> FallbackEvaluation | ParsedJson j \<Rightarrow> ParsedEvaluation j))"
  by (auto simp: finish_turn_def freeze_def Let_def
      split: if_splits option.splits parse_result.splits)

lemma turn_body_moderation:
  "\<not> passes_moderation env m \<Longrightarrow>
   turn_body env m s =
     Inr (moderation_branch (clock_now env) (classification env m) (warningCount (agenticDecisions s))
            (lastQuestion (messages s)) (receive (clock_now env) m s))"
  by (auto simp: turn_body_def passes_moderation_def classification_def lastQuestion_user
        receive_simps Let_def)

lemma turn_body_mock:
  "passes_moderation env m \<Longrightarrow> interviewMode (config s) \<noteq> Some Practice \<Longrightarrow>
   turn_body env m s = mock_branch env (receive (clock_now env) m s)"
  by (auto simp: turn_body_def passes_moderation_def classification_def receive_simps Let_def)

lemma mock_branch_wrap_up:
  assumes "proposes env (Some ''WRAP_UP'')"
  shows "mock_branch env s =
     (case planner_reply env of
        None \<Rightarrow> Inl process_failed
      | Some response \<Rightarrow>
          (let s' = log_decision (makeAgenticDecision (clock_planner env) response) s
           in if canWrapUp (governor_elapsed env s) (durationMinutes (config s)) (questionsAsked (state s))
              then generateNextQuestion env (Some ''WRAP_UP'') (set_phase WrapUp s') True
                     [AnalyzeCall, DecisionCall]
              else generateNextQuestion env (Some ''MOVE_NEXT'') (set_phase (phase (state s)) s') False
                     [AnalyzeCall, DecisionCall]))"
  using assms
  by (auto simp: mock_branch_def proposes_def governor_elapsed_def log_decision_def Let_def
      split: option.splits)

lemma moderation_branch_frame:
  "state (session (moderation_branch now a w q s)) =
     (if shouldTerminate (generateModerationResponse a w q)
      then (state s)\<lparr>isActive := False, endTime := Some now, phase := Completed\<rparr> else state s)"
  "config (session (moderation_branch now a w q s)) = config s"
  "messages (session (moderation_branch now a w q s)) = messages s"
  "evaluation (session (moderation_branch now a w q s)) = evaluation s"
  "calls (moderation_branch now a w q s) = [AnalyzeCall, ModerationCall]"
  "practiceScore (moderation_branch now a w q s) = None"
  "aiResponse (moderation_branch now a w q s) = moderation_message (generateModerationResponse a w q)"
  "shouldEndSession (moderation_branch now a w q s) = shouldTerminate (generateModerationResponse a w q)"
  by (simp_all add: moderation_branch_def log_decision_def freeze_def Let_def)

lemma moderation_branch_log:
  "\<not> shouldTerminate (generateModerationResponse a w q) \<Longrightarrow>
   moderation_message (generateModerationResponse a w q) \<noteq> [] \<Longrightarrow>
   agenticDecisions (session (moderation_branch now a w q s))
     = agenticDecisions s @ [warning_entry now (reason a)]"
  by (simp add: moderation_branch_def log_decision_def warning_entry_def Let_def)

lemma finish_turn_messages:
  "finish_turn env l = Inr r \<Longrightarrow>
   messages (saved r) = messages (session l) @
     [\<lparr>role = Assistant, content = aiResponse l, timestamp = clock_now env,
       metadata = Some \<lparr>questionType = phase (state (session l)),
                        isFollowUp = (interviewMode (config (session l)) = Some Practice),
                        evaluationScore = practiceScore l\<rparr>\<rparr>]"
  by (auto simp: finish_turn_def freeze_def Let_def split: if_splits option.splits parse_result.splits)

lemma finish_turn_calls:
  "finish_turn env l = Inr r \<Longrightarrow> llm_calls r = calls l \<or> llm_calls r = calls l @ [EvaluationCall]"
  by (auto simp: finish_turn_def Let_def split: if_splits option.splits parse_result.splits)

lemma finish_turn_evaluated:
  "finish_turn env l = Inr r \<Longrightarrow> \<not> shouldEndSession l \<Longrightarrow>
   shouldEndInterview (state (session l)) (durationMinutes (config (session l))) (clock_check env) \<Longrightarrow>
   evaluation (saved r) \<noteq> None \<and> EvaluationCall \<in> set (llm_calls r)"
  by (auto simp: finish_turn_def freeze_def Let_def split: if_splits option.splits parse_result.splits)

lemma turn_body_branches:
  "turn_body env m s = Inr l \<Longrightarrow> ModerationCall \<in> set (calls l) \<longleftrightarrow> \<not> passes_moderation env m"
  by (auto simp: turn_body_def passes_moderation_def classification_def moderation_branch_def
        practice_branch_def mock_branch_def generateNextQuestion_def Let_def
      split: if_splits option.splits parse_result.splits practice_value.splits prod.splits)

lemma moderated_turn:
  assumes "sendMessage svc env message s = Inr r" and "turn_body env message s = Inr l"
    and "moderated l"
  shows "questionsAsked (state (saved r)) = questionsAsked (state s) + 1
       \<and> config (saved r) = config s
       \<and> startTime (state (saved r)) = startTime (state s)
       \<and> currentQuestionIndex (state (saved r)) = currentQuestionIndex (state s)
       \<and> lastActivity (state (saved r)) = clock_now env
       \<and> messages (saved r) = messages s @
           [\<lparr>role = User, content = message, timestamp = clock_now env, metadata = None\<rparr>,
            \<lparr>role = Assistant, content = reply r, timestamp = clock_now env,
             metadata = Some \<lparr>questionType = phase (state s),
                              isFollowUp = (interviewMode (config s) = Some Practice),
                              evaluationScore = None\<rparr>\<rparr>]
       \<and> agenticDecisions (saved r) = agenticDecisions s
           @ [warning_entry (clock_now env) (reason (classification env message))]
       \<and> DecisionCall \<notin> set (llm_calls r)
       \<and> phase (state (session l)) = phase (state s)
       \<and> (if shouldEndInterview (state (session l)) (durationMinutes (config s)) (clock_check env)
          then frozen (saved r) \<and> evaluation (saved r) \<noteq> None
          else phase (state (saved r)) = phase (state s) \<and> isActive (state (saved r))
               \<and> endTime (state (saved r)) = endTime (state s)
               \<and> evaluation (saved r) = evaluation s)"
proof -
  from sendMessage_Inr[OF assms(1)] assms(2)
  have act: "isActive (state s)" and ft: "finish_turn env l = Inr r" by auto
  have np: "\<not> passes_moderation env message"
    using turn_body_branches[OF assms(2)] assms(3) by (simp add: moderated_def)
  let ?a = "classification env message"
  let ?w = "warningCount (agenticDecisions s)"
  let ?q = "lastQuestion (messages s)"
  let ?s1 = "receive (clock_now env) message s"
  have l: "l = moderation_branch (clock_now env) ?a ?w ?q ?s1"
    using turn_body_moderation[OF np, of s] assms(2) by simp
  have nt: "\<not> shouldTerminate (generateModerationResponse ?a ?w ?q)"
    and ne: "moderation_message (generateModerationResponse ?a ?w ?q) \<noteq> []"
    using assms(3) by (simp_all add: moderated_def l moderation_branch_frame)
  have st: "state (session l) = state ?s1" using nt by (simp add: l moderation_branch_frame)
  have cf: "config (session l) = config s" by (simp add: l moderation_branch_frame receive_simps)
  have ns: "\<not> shouldEndSession l" using nt by (simp add: l moderation_branch_frame)
  have ms: "messages (saved r) = messages s @
           [\<lparr>role = User, content = message, timestamp = clock_now env, metadata = None\<rparr>,
            \<lparr>role = Assistant, content = reply r, timestamp = clock_now env,
             metadata = Some \<lparr>questionType = phase (state s),
                              isFollowUp = (interviewMode (config s) = Some Practice),
                              evaluationScore = None\<rparr>\<rparr>]"
    using finish_turn_messages[OF ft] finish_turn_frame[OF ft] st cf
    by (simp add: l moderation_branch_frame receive_simps)
  have lg: "agenticDecisions (saved r) = agenticDecisions s
           @ [warning_entry (clock_now env) (reason ?a)]"
    using finish_turn_frame[OF ft] moderation_branch_log[OF nt ne, of "clock_now env" ?s1]
    by (simp add: l receive_simps)
  have dc: "DecisionCall \<notin> set (llm_calls r)"
    using finish_turn_calls[OF ft] by (auto simp: l moderation_branch_frame)
  have fr: "questionsAsked (state (saved r)) = questionsAsked (state s) + 1"
    "config (saved r) = config s" "startTime (state (saved r)) = startTime (state s)"
    "currentQuestionIndex (state (saved r)) = currentQuestionIndex (state s)"
    "lastActivity (state (saved r)) = clock_now env"
    using finish_turn_frame[OF ft] st cf by (simp_all add: receive_simps)
  have ph: "phase (state (session l)) = phase (state s)" by (simp add: st receive_simps)
  have en: "if shouldEndInterview (state (session l)) (durationMinutes (config s)) (clock_check env)
          then frozen (saved r) \<and> evaluation (saved r) \<noteq> None
          else phase (state (saved r)) = phase (state s) \<and> isActive (state (saved r))
               \<and> endTime (state (saved r)) = endTime (state s)
               \<and> evaluation (saved r) = evaluation s"
  proof (cases "shouldEndInterview (state (session l)) (durationMinutes (config s)) (clock_check env)")
    case True
    then show ?thesis
      using finish_turn_ends[OF ft] finish_turn_evaluated[OF ft ns] cf by simp
  next
    case False
    then show ?thesis
      using finish_turn_continues[OF ft ns] cf st act
      by (simp add: receive_simps l moderation_branch_frame)
  qed
  show ?thesis using fr ms lg dc ph en by blast
qed

lemma mock_branch_answers:
  "planner_reply env = Some response \<Longrightarrow> question_reply env = Some question \<Longrightarrow>
   \<exists>l. mock_branch env s = Inr l \<and> aiResponse l = question
     \<and> agenticDecisions (session l)
         = agenticDecisions s @ [makeAgenticDecision (clock_planner env) response]
     \<and> config (session l) = config s \<and> messages (session l) = messages s
     \<and> evaluation (session l) = evaluation s \<and> practiceScore l = None"
  by (simp add: mock_branch_def generateNextQuestion_def log_decision_def set_phase_def Let_def)

lemma finish_turn_ended:
  "shouldEndSession l \<Longrightarrow>
   \<exists>r. finish_turn env l = Inr r \<and> llm_calls r = calls l
     \<and> evaluation (saved r) = evaluation (session l)"
  by (simp add: finish_turn_def freeze_def Let_def)

lemma finish_turn_answers:
  "evaluation_reply env \<noteq> None \<Longrightarrow> \<exists>r. finish_turn env l = Inr r"
  by (auto simp: finish_turn_def Let_def split: option.splits parse_result.splits)

lemma finish_turn_active:
  "\<not> shouldEndSession l \<Longrightarrow>
   \<not> shouldEndInterview (state (session l)) (durationMinutes (config (session l)))
       (clock_check env) \<Longrightarrow>
   \<exists>r. finish_turn env l = Inr r"
  by (simp add: finish_turn_def Let_def)

lemma moderation_branch_terminated:
  "shouldTerminate (generateModerationResponse a w q) \<Longrightarrow>
   agenticDecisions (session (moderation_branch now a w q s))
     = agenticDecisions s @
        [\<lparr>decision_timestamp = now, decision = Some ''TERMINATE'',
          reasoning = Some ''Session terminated due to inappropriate behavior'',
          decision_context = Some (reason a)\<rparr>]"
  by (simp add: moderation_branch_def log_decision_def freeze_def Let_def)

lemma escalation_response:
  "containsProfanity a \<or> severity a = ''high'' \<Longrightarrow>
   generateModerationResponse a w q =
     (if w \<ge> 1 then \<lparr>moderation_message = terminate_text, shouldTerminate = True\<rparr>
      else \<lparr>moderation_message = warning_text 1 q, shouldTerminate = False\<rparr>)"
  by (cases w) (auto simp: generateModerationResponse_def Let_def)

lemma warningCount_pos:
  "warningCount ds \<ge> 1 \<longleftrightarrow> (\<exists>d\<in>set ds. decision d = Some ''MODERATE'')"
  by (induction ds) (auto simp: warningCount_def)

lemma mock_turn_answered:
  assumes "message \<noteq> []" and "isActive (state s)" and "activeService svc \<noteq> None"
    and "validates s" and "interviewMode (config s) \<noteq> Some Practice"
    and "passes_moderation env message"
    and "planner_reply env = Some response"
    and "valid_decision (makeAgenticDecision (clock_planner env) response)"
    and "question_reply env = Some question" and "question \<noteq> []"
    and "evaluation_reply env = Some v" and "storable_evaluation v"
  shows "\<exists>l r. turn_body env message s = Inr l \<and> finish_turn env l = Inr r
           \<and> sendMessage svc env message s = Inr r \<and> aiResponse l = question
           \<and> agenticDecisions (session l)
               = agenticDecisions s @ [makeAgenticDecision (clock_planner env) response]"
proof -
  let ?s1 = "receive (clock_now env) message s"
  have tb: "turn_body env message s = mock_branch env ?s1"
    using turn_body_mock[OF assms(6) assms(5)] .
  obtain l where l: "mock_branch env ?s1 = Inr l" and ai: "aiResponse l = question"
    and lg: "agenticDecisions (session l)
        = agenticDecisions s @ [makeAgenticDecision (clock_planner env) response]"
    and cf: "config (session l) = config s"
    and ms: "messages (session l) = messages ?s1"
    and ev: "evaluation (session l) = evaluation s" and ps: "practiceScore l = None"
    using mock_branch_answers[OF assms(7,9), of ?s1] by (auto simp: receive_simps)
  obtain r where ft: "finish_turn env l = Inr r"
    using finish_turn_answers[of env l] assms(11) by auto
  have "case evaluation (saved r) of None \<Rightarrow> True | Some e \<Rightarrow> valid_evaluation e"
    using finish_turn_evaluation[OF ft] assms(4,11,12) ev
    by (auto simp: validates_def storable_evaluation_def valid_evaluation_def
        split: parse_result.splits)
  moreover have "valid_config (config s)" "list_all valid_message (messages s)"
    "list_all valid_decision (agenticDecisions s)"
    using assms(4) by (simp_all add: validates_def)
  ultimately have "validates (saved r)"
    unfolding validates_saved[OF ft]
    using assms(1,8,10) ai lg cf ms ps
    by (simp add: receive_simps valid_message_def)
  then have "sendMessage svc env message s = Inr r"
    using sendMessage_answers[OF assms(1,2,3) _ ft] tb l by simp
  then show ?thesis using tb l ft ai lg by auto
qed

lemma move_next_succeeds:
  assumes "isActive (state s)" "activeService svc \<noteq> None" "interviewMode (config s) \<noteq> Some Practice"
    "validates s" "move_next_turn (env, m)"
  shows "\<exists>r. sendMessage svc env m s = Inr r"
proof -
  from assms(5) obtain response question v where
    "planner_reply env = Some response"
    "valid_decision (makeAgenticDecision (clock_planner env) response)"
    "question_reply env = Some question" "question \<noteq> []"
    "evaluation_reply env = Some v" "storable_evaluation v"
    by (auto simp: move_next_turn_def storable_replies_def split: option.splits)
  with mock_turn_answered[OF _ assms(1,2,4,3), of m env response question v] assms(5)
  show ?thesis by (auto simp: move_next_turn_def)
qed

lemma run_frozen:
  "startTime (state s) \<noteq> None \<Longrightarrow> activeService svc \<noteq> None \<Longrightarrow>
   interviewMode (config s) \<noteq> Some Practice \<Longrightarrow> validates s \<Longrightarrow>
   \<forall>em\<in>set ems. move_next_turn em \<Longrightarrow>
   frozen s \<or> (isActive (state s) \<and> ems \<noteq> [] \<and>
       int (questionsAsked (state s)) + int (length ems) \<ge> maxQuestions (durationMinutes (config s))) \<Longrightarrow>
   frozen (run_turns svc s ems)"
proof (induction ems arbitrary: s)
  case Nil
  then show ?case by simp
next
  case (Cons em ems)
  show ?case
  proof (cases "isActive (state s)")
    case False
    then have "frozen s" using Cons.prems(6) by blast
    moreover have "run_turns svc s (em # ems) = s" using False by (rule run_turns_inactive)
    ultimately show ?thesis by simp
  next
    case True
    have mn: "move_next_turn (fst em, snd em)" using Cons.prems(5) by simp
    from move_next_succeeds[OF True Cons.prems(2) Cons.prems(3) Cons.prems(4) mn]
    obtain r where r: "sendMessage svc (fst em) (snd em) s = Inr r" by blast
    have run: "run_turns svc s (em # ems) = run_turns svc (saved r) ems" using r by simp
    have fr: "config (saved r) = config s" "startTime (state (saved r)) = startTime (state s)"
      "questionsAsked (state (saved r)) = questionsAsked (state s) + 1"
      using sendMessage_frame[OF r] by auto
    have va: "validates (saved r)" using sendMessage_Inr[OF r] by blast
    obtain start where start: "startTime (state s) = Some start" using Cons.prems(1) by blast
    have bound: "int (questionsAsked (state s)) + int (length (em # ems))
        \<ge> maxQuestions (durationMinutes (config s))"
      using Cons.prems(6) True by (auto simp: frozen_def)
    have "frozen (saved r) \<or> (isActive (state (saved r)) \<and> ems \<noteq> [] \<and>
       int (questionsAsked (state (saved r))) + int (length ems)
         \<ge> maxQuestions (durationMinutes (config (saved r))))"
      using turn_outcome[OF r] start bound fr by (cases ems) auto
    then have "frozen (run_turns svc (saved r) ems)"
      using Cons.IH[of "saved r"] Cons.prems fr va by simp
    then show ?thesis using run by simp
  qed
qed

lemma mock_branch_calls:
  "mock_branch env s = Inr l \<Longrightarrow> DecisionCall \<in> set (calls l) \<and> ModerationCall \<notin> set (calls l)"
  by (auto simp: mock_branch_def generateNextQuestion_def Let_def
      split: if_splits option.splits)

lemma frozen_fields:
  "frozen s \<Longrightarrow> \<not> isActive (state s) \<and> endTime (state s) \<noteq> None \<and> phase (state s) = Completed"
  by (simp add: frozen_def)

lemma mock_branch_log:
  "mock_branch env s = Inr l \<Longrightarrow>
   \<exists>response. planner_reply env = Some response
     \<and> agenticDecisions (session l)
         = agenticDecisions s @ [makeAgenticDecision (clock_planner env) response]"
  by (auto simp: mock_branch_def generateNextQuestion_def log_decision_def set_phase_def Let_def
      split: if_splits option.splits)

lemma moderation_stored:
  assumes "validates s" and "message \<noteq> []" and "reason a \<noteq> []"
    and "finish_turn env (moderation_branch now a w q (receive now' message s)) = Inr r"
    and "moderation_message (generateModerationResponse a w q) \<noteq> []"
    and "case evaluation (saved r) of None \<Rightarrow> True | Some e \<Rightarrow> valid_evaluation e"
  shows "validates (saved r)"
proof -
  have "list_all valid_decision
      (agenticDecisions (session (moderation_branch now a w q (receive now' message s))))"
    using assms(1,3)
    by (auto simp: moderation_branch_def log_decision_def freeze_def receive_simps validates_def
          valid_decision_def required_text_def Let_def)
  moreover have "valid_config (config s)" "list_all valid_message (messages s)"
    using assms(1) by (simp_all add: validates_def)
  ultimately show ?thesis
    unfolding validates_saved[OF assms(4)]
    using assms(2,5,6)
    by (simp add: moderation_branch_frame receive_simps valid_message_def)
qed

lemma first_warning_text:
  "warning_text 1 q =
     ''I need you to maintain professional communication during our interview. This is your first warning. Let''
     @ [CHR 0x27] @ ''s continue professionally. '' @ [CHR 0x0A, CHR 0x0A]
     @ ''Let me repeat the question: '' @ q"
  by (simp add: warning_text_def nl_def)

section \<open>The claims\<close>

text \<open>
  C1, as the code has it. With \<open>durationMinutes = 30\<close> the question threshold
  \<open>max 6 (min 12 (floor (30 / 4)))\<close> of the hard-termination rule is 7. A session created by
  \<^verbatim>\<open>createSession\<close> with 30 minutes, followed by seven turns that each pass moderation, have
  the planner propose \<^verbatim>\<open>MOVE_NEXT\<close> and are answered (the message is not empty and every
  reply can be stored: the decision has its three texts, the question is not empty, and the
  evaluation reply does not parse or parses to a value the schema accepts), is inactive with
  \<^verbatim>\<open>endTime\<close> set and phase \<^verbatim>\<open>completed\<close> after the seventh. For every session the program
  can hold: while it is active, \<open>questionsAsked\<close> is below
  \<open>max 6 (min 12 (floor (durationMinutes / 4)))\<close>; its \<^verbatim>\<open>startTime\<close> is set; and every
  answered turn counts one question and leaves the session inactive, with \<^verbatim>\<open>endTime\<close> the
  time of the turn and phase \<^verbatim>\<open>completed\<close>, whenever at the check the elapsed minutes have
  reached \<open>durationMinutes\<close>, or \<open>questionsAsked\<close> (the message of the turn counted) has
  reached the threshold, or the phase is \<^verbatim>\<open>completed\<close>; when none of the three holds and
  neither the moderation nor an honoured \<^verbatim>\<open>WRAP_UP\<close> ended the turn, the session stays
  active. The quotients are the doubles the code computes.
\<close>

theorem hard_termination_rule:
  "max 6 (min 12 \<lfloor>double (30 / 4)\<rfloor>) = 7
   \<and> maxQuestions 30 = 7
   \<and> (\<forall>svc cenv req s ems.
        createSession svc cenv req = Inr s \<and> durationMinutes (config s) = 30
        \<and> length ems = 7 \<and> (\<forall>em\<in>set ems. move_next_turn em)
        \<longrightarrow> \<not> isActive (state (run_turns svc s ems))
            \<and> endTime (state (run_turns svc s ems)) \<noteq> None
            \<and> phase (state (run_turns svc s ems)) = Completed)
   \<and> (\<forall>s. reachable s \<longrightarrow>
        (isActive (state s) \<longrightarrow>
           int (questionsAsked (state s))
             < max 6 (min 12 \<lfloor>double (durationMinutes (config s) / 4)\<rfloor>))
        \<and> (\<exists>start. startTime (state s) = Some start \<and>
             (\<forall>svc env m l r.
                turn_body env m s = Inr l \<and> sendMessage svc env m s = Inr r \<longrightarrow>
                questionsAsked (state (saved r)) = questionsAsked (state s) + 1
                \<and> (double (of_int (clock_check env - start) / (1000 * 60))
                      \<ge> durationMinutes (config s)
                    \<or> int (questionsAsked (state s)) + 1
                      \<ge> max 6 (min 12 \<lfloor>double (durationMinutes (config s) / 4)\<rfloor>)
                    \<or> phase (state (session l)) = Completed
                    \<longrightarrow> \<not> isActive (state (saved r))
                        \<and> endTime (state (saved r)) = Some (clock_now env)
                        \<and> phase (state (saved r)) = Completed)
                \<and> (double (of_int (clock_check env - start) / (1000 * 60))
                      < durationMinutes (config s)
                    \<and> int (questionsAsked (state s)) + 1
                      < max 6 (min 12 \<lfloor>double (durationMinutes (config s) / 4)\<rfloor>)
                    \<and> phase (state (session l)) \<noteq> Completed \<and> \<not> shouldEndSession l
                    \<longrightarrow> isActive (state (saved r))
                        \<and> phase (state (saved r)) = phase (state (session l))))))"
proof (intro conjI allI impI)
  show "max 6 (min 12 \<lfloor>double (30 / 4)\<rfloor>) = 7" using maxQuestions_30 by (simp add: maxQuestions_def)
next
  show "maxQuestions 30 = 7" by (rule maxQuestions_30)
next
  fix svc cenv req s and ems :: "(turn_env \<times> string) list"
  assume a: "createSession svc cenv req = Inr s \<and> durationMinutes (config s) = 30
        \<and> length ems = 7 \<and> (\<forall>em\<in>set ems. move_next_turn em)"
  from a created_startTime[of svc cenv req s]
  have c: "startTime (state s) \<noteq> None" "questionsAsked (state s) = 0" "isActive (state s)"
    "activeService svc \<noteq> None" "validates s" "interviewMode (config s) \<noteq> Some Practice"
    by auto
  have "ems \<noteq> []" using a by auto
  then have fz: "frozen (run_turns svc s ems)"
    using run_frozen[of s svc ems] a c maxQuestions_30 by simp
  show "\<not> isActive (state (run_turns svc s ems))" using frozen_fields[OF fz] by simp
  show "endTime (state (run_turns svc s ems)) \<noteq> None" using frozen_fields[OF fz] by simp
  show "phase (state (run_turns svc s ems)) = Completed" using frozen_fields[OF fz] by simp
next
  fix s assume "reachable s" and "isActive (state s)"
  then show "int (questionsAsked (state s))
             < max 6 (min 12 \<lfloor>double (durationMinutes (config s) / 4)\<rfloor>)"
    using reachable_questions[of s] by (simp add: maxQuestions_def)
next
  fix s assume rs: "reachable s"
  then obtain start where start: "startTime (state s) = Some start"
    using reachable_startTime by blast
  let ?trigger = "\<lambda>env l. double (of_int (clock_check env - start) / (1000 * 60))
                      \<ge> durationMinutes (config s)
                    \<or> int (questionsAsked (state s)) + 1
                      \<ge> max 6 (min 12 \<lfloor>double (durationMinutes (config s) / 4)\<rfloor>)
                    \<or> phase (state (session l)) = Completed"
  have "\<forall>svc env m l r.
                turn_body env m s = Inr l \<and> sendMessage svc env m s = Inr r \<longrightarrow>
                questionsAsked (state (saved r)) = questionsAsked (state s) + 1
                \<and> (double (of_int (clock_check env - start) / (1000 * 60))
                      \<ge> durationMinutes (config s)
                    \<or> int (questionsAsked (state s)) + 1
                      \<ge> max 6 (min 12 \<lfloor>double (durationMinutes (config s) / 4)\<rfloor>)
                    \<or> phase (state (session l)) = Completed
                    \<longrightarrow> \<not> isActive (state (saved r))
                        \<and> endTime (state (saved r)) = Some (clock_now env)
                        \<and> phase (state (saved r)) = Completed)
                \<and> (double (of_int (clock_check env - start) / (1000 * 60))
                      < durationMinutes (config s)
                    \<and> int (questionsAsked (state s)) + 1
                      < max 6 (min 12 \<lfloor>double (durationMinutes (config s) / 4)\<rfloor>)
                    \<and> phase (state (session l)) \<noteq> Completed \<and> \<not> shouldEndSession l
                    \<longrightarrow> isActive (state (saved r))
                        \<and> phase (state (saved r)) = phase (state (session l)))"
  proof (intro allI impI)
    fix svc env m l r
    assume h: "turn_body env m s = Inr l \<and> sendMessage svc env m s = Inr r"
    then have tb: "turn_body env m s = Inr l" and sm: "sendMessage svc env m s = Inr r" by auto
    from sendMessage_Inr[OF sm] tb
    have ft: "finish_turn env l = Inr r" and act: "isActive (state s)" by auto
    have se: "shouldEndInterview (state (session l)) (durationMinutes (config (session l)))
          (clock_check env) \<longleftrightarrow> ?trigger env l"
      using start turn_body_frame[OF tb]
      by (auto simp: shouldEndInterview_def elapsedMinutes_def maxQuestions_def)
    have ends: "?trigger env l \<longrightarrow> \<not> isActive (state (saved r))
                        \<and> endTime (state (saved r)) = Some (clock_now env)
                        \<and> phase (state (saved r)) = Completed"
      using finish_turn_ends[OF ft] se by (auto simp: frozen_def)
    have stays: "\<not> ?trigger env l \<and> \<not> shouldEndSession l
                    \<longrightarrow> isActive (state (saved r))
                        \<and> phase (state (saved r)) = phase (state (session l))"
      using finish_turn_continues[OF ft] turn_body_active[OF tb] se act by auto
    have goes: "double (of_int (clock_check env - start) / (1000 * 60))
                      < durationMinutes (config s)
                    \<and> int (questionsAsked (state s)) + 1
                      < max 6 (min 12 \<lfloor>double (durationMinutes (config s) / 4)\<rfloor>)
                    \<and> phase (state (session l)) \<noteq> Completed \<and> \<not> shouldEndSession l
                    \<longrightarrow> isActive (state (saved r))
                        \<and> phase (state (saved r)) = phase (state (session l))"
      using stays by (meson not_le)
    show "questionsAsked (state (saved r)) = questionsAsked (state s) + 1
                \<and> (double (of_int (clock_check env - start) / (1000 * 60))
                      \<ge> durationMinutes (config s)
                    \<or> int (questionsAsked (state s)) + 1
                      \<ge> max 6 (min 12 \<lfloor>double (durationMinutes (config s) / 4)\<rfloor>)
                    \<or> phase (state (session l)) = Completed
                    \<longrightarrow> \<not> isActive (state (saved r))
                        \<and> endTime (state (saved r)) = Some (clock_now env)
                        \<and> phase (state (saved r)) = Completed)
                \<and> (double (of_int (clock_check env - start) / (1000 * 60))
                      < durationMinutes (config s)
                    \<and> int (questionsAsked (state s)) + 1
                      < max 6 (min 12 \<lfloor>double (durationMinutes (config s) / 4)\<rfloor>)
                    \<and> phase (state (session l)) \<noteq> Completed \<and> \<not> shouldEndSession l
                    \<longrightarrow> isActive (state (saved r))
                        \<and> phase (state (saved r)) = phase (state (session l)))"
      using sendMessage_frame[OF sm] ends goes by blast
  qed
  then show "\<exists>start. startTime (state s) = Some start \<and>
             (\<forall>svc env m l r.
                turn_body env m s = Inr l \<and> sendMessage svc env m s = Inr r \<longrightarrow>
                questionsAsked (state (saved r)) = questionsAsked (state s) + 1
                \<and> (double (of_int (clock_check env - start) / (1000 * 60))
                      \<ge> durationMinutes (config s)
                    \<or> int (questionsAsked (state s)) + 1
                      \<ge> max 6 (min 12 \<lfloor>double (durationMinutes (config s) / 4)\<rfloor>)
                    \<or> phase (state (session l)) = Completed
                    \<longrightarrow> \<not> isActive (state (saved r))
                        \<and> endTime (state (saved r)) = Some (clock_now env)
                        \<and> phase (state (saved r)) = Completed)
                \<and> (double (of_int (clock_check env - start) / (1000 * 60))
                      < durationMinutes (config s)
                    \<and> int (questionsAsked (state s)) + 1
                      < max 6 (min 12 \<lfloor>double (durationMinutes (config s) / 4)\<rfloor>)
                    \<and> phase (state (session l)) \<noteq> Completed \<and> \<not> shouldEndSession l
                    \<longrightarrow> isActive (state (saved r))
                        \<and> phase (state (saved r)) = phase (state (session l))))"
    using start by blast
qed

theorem hard_termination_rule_witness:
  "createSession demo_service demo_create_env demo_request = Inr demo_session
   \<and> durationMinutes (config demo_session) = 30
   \<and> move_next_turn (demo_env, ''I led the migration.'')
   \<and> \<not> isActive (state (run_turns demo_service demo_session
                          (replicate 7 (demo_env, ''I led the migration.''))))
   \<and> phase (state (run_turns demo_service demo_session
                          (replicate 7 (demo_env, ''I led the migration.'')))) = Completed
   \<and> reachable (run_turns demo_service demo_session
                          (replicate 6 (demo_env, ''I led the migration.'')))
   \<and> isActive (state (run_turns demo_service demo_session
                          (replicate 6 (demo_env, ''I led the migration.''))))
   \<and> int (questionsAsked (state (run_turns demo_service demo_session
                          (replicate 6 (demo_env, ''I led the migration.''))))) < 7
   \<and> (case sendMessage demo_service (demo_env\<lparr>clock_check := 1800000\<rparr>) ''I led the migration.''
             demo_session of
        Inl e \<Rightarrow> False
      | Inr r \<Rightarrow> \<not> isActive (state (saved r)) \<and> endTime (state (saved r)) = Some 60000
                 \<and> phase (state (saved r)) = Completed)"
proof -
  let ?m = "''I led the migration.''"
  let ?e = "demo_env\<lparr>clock_check := 1800000\<rparr>"
  let ?s6 = "run_turns demo_service demo_session (replicate 6 (demo_env, ?m))"
  have mn: "move_next_turn (demo_env, ?m)" by code_simp
  then have all: "\<forall>em\<in>set (replicate 7 (demo_env, ?m)). move_next_turn em" by simp
  have cfg: "durationMinutes (config demo_session) = 30" by (simp add: demo_session_def)
  from hard_termination_rule
  have run: "\<And>svc cenv req s ems.
        createSession svc cenv req = Inr s \<and> durationMinutes (config s) = 30
        \<and> length ems = 7 \<and> (\<forall>em\<in>set ems. move_next_turn em)
        \<Longrightarrow> \<not> isActive (state (run_turns svc s ems))
            \<and> endTime (state (run_turns svc s ems)) \<noteq> None
            \<and> phase (state (run_turns svc s ems)) = Completed"
    by blast
  have seven: "\<not> isActive (state (run_turns demo_service demo_session (replicate 7 (demo_env, ?m))))
      \<and> phase (state (run_turns demo_service demo_session (replicate 7 (demo_env, ?m)))) = Completed"
    using run[of demo_service demo_create_env demo_request demo_session "replicate 7 (demo_env, ?m)"]
      demo_created cfg all by simp
  have rs: "reachable demo_session" using demo_created by (rule reachable.created)
  then have rs6: "reachable ?s6" by (rule reachable_run_turns)
  have a6: "isActive (state ?s6)" by code_simp
  have d6: "durationMinutes (config ?s6) = 30" by code_simp
  note rule = hard_termination_rule[THEN conjunct2, THEN conjunct2, THEN conjunct2, rule_format]
  from rule[OF rs6] a6
  have "int (questionsAsked (state ?s6))
      < max 6 (min 12 \<lfloor>double (durationMinutes (config ?s6) / 4)\<rfloor>)"
    by blast
  moreover from hard_termination_rule have "max 6 (min 12 \<lfloor>double (30 / 4)\<rfloor>) = 7" by blast
  ultimately have q6: "int (questionsAsked (state ?s6)) < 7" using d6 by simp
  have "case sendMessage demo_service ?e ?m demo_session of Inl e \<Rightarrow> False | Inr r \<Rightarrow> True"
    by code_simp
  then obtain r where r: "sendMessage demo_service ?e ?m demo_session = Inr r"
    using answered by blast
  from sendMessage_Inr[OF r] obtain l where l: "turn_body ?e ?m demo_session = Inr l" by blast
  from rule[OF rs, THEN conjunct2]
  obtain start where start: "startTime (state demo_session) = Some start"
    and every: "\<forall>svc env m l r.
                turn_body env m demo_session = Inr l \<and> sendMessage svc env m demo_session = Inr r
                \<longrightarrow>
                questionsAsked (state (saved r)) = questionsAsked (state demo_session) + 1
                \<and> (double (of_int (clock_check env - start) / (1000 * 60))
                      \<ge> durationMinutes (config demo_session)
                    \<or> int (questionsAsked (state demo_session)) + 1
                      \<ge> max 6 (min 12 \<lfloor>double (durationMinutes (config demo_session) / 4)\<rfloor>)
                    \<or> phase (state (session l)) = Completed
                    \<longrightarrow> \<not> isActive (state (saved r))
                        \<and> endTime (state (saved r)) = Some (clock_now env)
                        \<and> phase (state (saved r)) = Completed)
                \<and> (double (of_int (clock_check env - start) / (1000 * 60))
                      < durationMinutes (config demo_session)
                    \<and> int (questionsAsked (state demo_session)) + 1
                      < max 6 (min 12 \<lfloor>double (durationMinutes (config demo_session) / 4)\<rfloor>)
                    \<and> phase (state (session l)) \<noteq> Completed \<and> \<not> shouldEndSession l
                    \<longrightarrow> isActive (state (saved r))
                        \<and> phase (state (saved r)) = phase (state (session l)))"
    by (elim exE conjE)
  have gen: "double (of_int (clock_check ?e - start) / (1000 * 60))
                      \<ge> durationMinutes (config demo_session)
                    \<or> int (questionsAsked (state demo_session)) + 1
                      \<ge> max 6 (min 12 \<lfloor>double (durationMinutes (config demo_session) / 4)\<rfloor>)
                    \<or> phase (state (session l)) = Completed
                    \<longrightarrow> \<not> isActive (state (saved r))
                        \<and> endTime (state (saved r)) = Some (clock_now ?e)
                        \<and> phase (state (saved r)) = Completed"
    using every[rule_format, of ?e ?m l demo_service r] l r by blast
  have "start = 0" using start by (simp add: demo_session_def)
  moreover have "double (of_int (1800000 - 0) / (1000 * 60)) \<ge> (30 :: rat)" by code_simp
  ultimately have "double (of_int (clock_check ?e - start) / (1000 * 60))
      \<ge> durationMinutes (config demo_session)"
    by (simp add: cfg)
  with gen
  have "\<not> isActive (state (saved r)) \<and> endTime (state (saved r)) = Some (clock_now ?e)
      \<and> phase (state (saved r)) = Completed"
    by blast
  then have "case sendMessage demo_service ?e ?m demo_session of
        Inl e \<Rightarrow> False
      | Inr r \<Rightarrow> \<not> isActive (state (saved r)) \<and> endTime (state (saved r)) = Some 60000
                 \<and> phase (state (saved r)) = Completed"
    using r by (simp add: demo_env_def)
  then show ?thesis using demo_created cfg mn seven rs6 a6 q6 by blast
qed

text \<open>
  C1, as the specification states it, fails. After six answered turns of a 30-minute session
  whose planner proposes \<^verbatim>\<open>MOVE_NEXT\<close>, the seventh message passes moderation and the planner
  proposes \<^verbatim>\<open>MOVE_NEXT\<close> again, but the evaluation invocation throws, or the evaluation reply
  copies the scores 0 of the example in the evaluation prompt, which the schema rejects
  (\<^verbatim>\<open>min: 1\<close>): the turn is answered 500, nothing is stored, and the session is still active
  with \<open>questionsAsked = 6\<close>.
\<close>

theorem unanswered_turn_counterexample:
  "passes_moderation demo_env ''I led the migration.''
   \<and> proposes demo_env (Some ''MOVE_NEXT'')
   \<and> questionsAsked (state (run_turns demo_service demo_session
        (replicate 6 (demo_env, ''I led the migration.'')))) = 6
   \<and> (case sendMessage demo_service (demo_env\<lparr>evaluation_reply := None\<rparr>)
           ''I led the migration.''
           (run_turns demo_service demo_session (replicate 6 (demo_env, ''I led the migration.''))) of
        Inl e \<Rightarrow> e = process_failed
      | Inr r \<Rightarrow> False)
   \<and> (case sendMessage demo_service
           (demo_env\<lparr>evaluation_reply := Some (ParsedJson (EvaluationObject template_evaluation))\<rparr>)
           ''I led the migration.''
           (run_turns demo_service demo_session (replicate 6 (demo_env, ''I led the migration.''))) of
        Inl e \<Rightarrow> e = process_failed
      | Inr r \<Rightarrow> False)
   \<and> isActive (state (run_turns demo_service demo_session
        (replicate 6 (demo_env, ''I led the migration.'')
         @ [(demo_env\<lparr>evaluation_reply := None\<rparr>, ''I led the migration.'')])))
   \<and> isActive (state (run_turns demo_service demo_session
        (replicate 6 (demo_env, ''I led the migration.'')
         @ [(demo_env\<lparr>evaluation_reply := Some (ParsedJson (EvaluationObject template_evaluation))\<rparr>,
             ''I led the migration.'')])))"
  by code_simp

text \<open>
  C2, as the code has it, for a stored session that is active and a message that is not
  empty, with \<open>c\<close> the classification of the message. When \<open>c\<close> is profane, or not
  appropriate and of severity \<^verbatim>\<open>high\<close>: if the decision log already holds an entry
  \<^verbatim>\<open>MODERATE\<close>, the turn is answered, the session is inactive with \<^verbatim>\<open>endTime\<close> the time of
  the turn and phase \<^verbatim>\<open>completed\<close>, one entry \<^verbatim>\<open>TERMINATE\<close> is appended to the log, the reply
  is the closing message, the only calls are the classification and the moderation response
  (no planner, no evaluation), and the evaluation is as it was; if the log holds no entry
  \<^verbatim>\<open>MODERATE\<close>, the turn is answered whenever the evaluation reply can be stored, and every
  answer appends one entry \<^verbatim>\<open>MODERATE\<close> to the log, calls the moderation response and not
  the planner, and replies with the first warning followed by the content of the last
  assistant message of the transcript. When \<open>c\<close> is appropriate and not profane, whatever
  its severity, the turn is not moderated: no moderation response is generated and, outside
  practice mode, the planner is called and its decision is the one entry appended to the log.
\<close>

theorem moderation_escalation:
  assumes "message \<noteq> []" and "isActive (state s)" and "activeService svc \<noteq> None"
    and "validates s"
    and "c = analyzeResponseApproppriateness (moderation_reply env) message"
  shows "(containsProfanity c \<or> (\<not> isAppropriate c \<and> severity c = ''high'') \<longrightarrow>
           ((\<exists>d\<in>set (agenticDecisions s). decision d = Some ''MODERATE'') \<longrightarrow>
              (\<exists>r. sendMessage svc env message s = Inr r
                 \<and> \<not> isActive (state (saved r)) \<and> endTime (state (saved r)) = Some (clock_now env)
                 \<and> phase (state (saved r)) = Completed
                 \<and> agenticDecisions (saved r) = agenticDecisions s
                     @ [\<lparr>decision_timestamp = clock_now env, decision = Some ''TERMINATE'',
                         reasoning = Some ''Session terminated due to inappropriate behavior'',
                         decision_context = Some (reason c)\<rparr>]
                 \<and> reply r = ''I need to end our interview session here. Professional communication is required for interview practice. Thank you for your time.''
                 \<and> llm_calls r = [AnalyzeCall, ModerationCall]
                 \<and> evaluation (saved r) = evaluation s))
           \<and> ((\<forall>d\<in>set (agenticDecisions s). decision d \<noteq> Some ''MODERATE'') \<longrightarrow>
                ((case evaluation_reply env of None \<Rightarrow> False | Some v \<Rightarrow> storable_evaluation v)
                   \<longrightarrow> (\<exists>r. sendMessage svc env message s = Inr r))
                \<and> (\<forall>r. sendMessage svc env message s = Inr r \<longrightarrow>
                     agenticDecisions (saved r) = agenticDecisions s
                       @ [\<lparr>decision_timestamp = clock_now env, decision = Some ''MODERATE'',
                           reasoning = Some ''Inappropriate or off-topic response detected'',
                           decision_context = Some (reason c)\<rparr>]
                     \<and> ModerationCall \<in> set (llm_calls r)
                     \<and> DecisionCall \<notin> set (llm_calls r)
                     \<and> (\<forall>before m rest.
                           messages s = before @ m # rest \<and> role m = Assistant
                           \<and> (\<forall>x\<in>set rest. role x \<noteq> Assistant) \<longrightarrow>
                           reply r =
                             ''I need you to maintain professional communication during our interview. This is your first warning. Let''
                             @ [CHR 0x27] @ ''s continue professionally. '' @ [CHR 0x0A, CHR 0x0A]
                             @ ''Let me repeat the question: '' @ content m))))
       \<and> (isAppropriate c \<and> \<not> containsProfanity c \<longrightarrow>
            (\<forall>r. sendMessage svc env message s = Inr r \<longrightarrow>
               ModerationCall \<notin> set (llm_calls r)
               \<and> (interviewMode (config s) \<noteq> Some Practice \<longrightarrow>
                    DecisionCall \<in> set (llm_calls r)
                    \<and> (\<exists>response. planner_reply env = Some response
                          \<and> agenticDecisions (saved r) = agenticDecisions s
                              @ [makeAgenticDecision (clock_planner env) response]))))"
proof -
  have cl: "classification env message = c" using assms(5) by (simp add: classification_def)
  have rn: "reason c \<noteq> []" using assms(5) by (simp add: reason_nonempty)
  let ?w = "warningCount (agenticDecisions s)"
  let ?q = "lastQuestion (messages s)"
  let ?s1 = "receive (clock_now env) message s"
  let ?l = "moderation_branch (clock_now env) c ?w ?q ?s1"
  let ?T = "\<exists>r. sendMessage svc env message s = Inr r
                 \<and> \<not> isActive (state (saved r)) \<and> endTime (state (saved r)) = Some (clock_now env)
                 \<and> phase (state (saved r)) = Completed
                 \<and> agenticDecisions (saved r) = agenticDecisions s
                     @ [\<lparr>decision_timestamp = clock_now env, decision = Some ''TERMINATE'',
                         reasoning = Some ''Session terminated due to inappropriate behavior'',
                         decision_context = Some (reason c)\<rparr>]
                 \<and> reply r = ''I need to end our interview session here. Professional communication is required for interview practice. Thank you for your time.''
                 \<and> llm_calls r = [AnalyzeCall, ModerationCall]
                 \<and> evaluation (saved r) = evaluation s"
  let ?A = "(case evaluation_reply env of None \<Rightarrow> False | Some v \<Rightarrow> storable_evaluation v)
                   \<longrightarrow> (\<exists>r. sendMessage svc env message s = Inr r)"
  let ?W = "\<forall>r. sendMessage svc env message s = Inr r \<longrightarrow>
                     agenticDecisions (saved r) = agenticDecisions s
                       @ [\<lparr>decision_timestamp = clock_now env, decision = Some ''MODERATE'',
                           reasoning = Some ''Inappropriate or off-topic response detected'',
                           decision_context = Some (reason c)\<rparr>]
                     \<and> ModerationCall \<in> set (llm_calls r)
                     \<and> DecisionCall \<notin> set (llm_calls r)
                     \<and> (\<forall>before m rest.
                           messages s = before @ m # rest \<and> role m = Assistant
                           \<and> (\<forall>x\<in>set rest. role x \<noteq> Assistant) \<longrightarrow>
                           reply r =
                             ''I need you to maintain professional communication during our interview. This is your first warning. Let''
                             @ [CHR 0x27] @ ''s continue professionally. '' @ [CHR 0x0A, CHR 0x0A]
                             @ ''Let me repeat the question: '' @ content m)"
  let ?P = "\<forall>r. sendMessage svc env message s = Inr r \<longrightarrow>
               ModerationCall \<notin> set (llm_calls r)
               \<and> (interviewMode (config s) \<noteq> Some Practice \<longrightarrow>
                    DecisionCall \<in> set (llm_calls r)
                    \<and> (\<exists>response. planner_reply env = Some response
                          \<and> agenticDecisions (saved r) = agenticDecisions s
                              @ [makeAgenticDecision (clock_planner env) response]))"
  have first: ?T
    if h: "containsProfanity c \<or> (\<not> isAppropriate c \<and> severity c = ''high'')"
      and m: "\<exists>d\<in>set (agenticDecisions s). decision d = Some ''MODERATE''"
  proof -
    have np: "\<not> passes_moderation env message"
      using h cl by (auto simp: passes_moderation_def)
    have tb: "turn_body env message s = Inr ?l" using turn_body_moderation[OF np, of s] cl by simp
    have gm: "generateModerationResponse c ?w ?q =
       (if ?w \<ge> 1 then \<lparr>moderation_message = terminate_text, shouldTerminate = True\<rparr>
        else \<lparr>moderation_message = warning_text 1 ?q, shouldTerminate = False\<rparr>)"
      using h by (intro escalation_response) blast
    have w: "?w \<ge> 1" using m warningCount_pos[of "agenticDecisions s"] by blast
    then have st: "shouldTerminate (generateModerationResponse c ?w ?q)"
      and mm: "moderation_message (generateModerationResponse c ?w ?q) = terminate_text"
      by (simp_all add: gm)
    have se: "shouldEndSession ?l" using st by (simp add: moderation_branch_frame)
    from finish_turn_ended[OF se, of env] obtain r where
      ft: "finish_turn env ?l = Inr r" and cs: "llm_calls r = calls ?l"
      and ev: "evaluation (saved r) = evaluation (session ?l)"
      by blast
    have evs: "evaluation (saved r) = evaluation s"
      using ev by (simp add: moderation_branch_frame receive_simps)
    have "case evaluation (saved r) of None \<Rightarrow> True | Some e \<Rightarrow> valid_evaluation e"
      using evs assms(4) by (simp add: validates_def)
    then have va: "validates (saved r)"
      using moderation_stored[OF assms(4) assms(1) rn ft] mm terminate_text_nonempty by simp
    have sm: "sendMessage svc env message s = Inr r"
      using sendMessage_answers[OF assms(1,2,3) tb ft va] .
    have fz: "frozen (saved r) \<and> endTime (state (saved r)) = Some (clock_now env)"
      using finish_turn_ends[OF ft] se by blast
    have lg: "agenticDecisions (saved r) = agenticDecisions s @
        [\<lparr>decision_timestamp = clock_now env, decision = Some ''TERMINATE'',
          reasoning = Some ''Session terminated due to inappropriate behavior'',
          decision_context = Some (reason c)\<rparr>]"
      using finish_turn_frame[OF ft] moderation_branch_terminated[OF st]
      by (simp add: receive_simps)
    have rp: "reply r = terminate_text"
      using finish_turn_frame[OF ft] mm by (simp add: moderation_branch_frame)
    have cs': "llm_calls r = [AnalyzeCall, ModerationCall]"
      by (simp add: cs moderation_branch_frame)
    show ?T using sm fz lg rp cs' evs by (auto simp: frozen_def terminate_text_def)
  qed
  have second: "?A \<and> ?W"
    if h: "containsProfanity c \<or> (\<not> isAppropriate c \<and> severity c = ''high'')"
      and m: "\<forall>d\<in>set (agenticDecisions s). decision d \<noteq> Some ''MODERATE''"
  proof -
    have np: "\<not> passes_moderation env message"
      using h cl by (auto simp: passes_moderation_def)
    have tb: "turn_body env message s = Inr ?l" using turn_body_moderation[OF np, of s] cl by simp
    have gm: "generateModerationResponse c ?w ?q =
       (if ?w \<ge> 1 then \<lparr>moderation_message = terminate_text, shouldTerminate = True\<rparr>
        else \<lparr>moderation_message = warning_text 1 ?q, shouldTerminate = False\<rparr>)"
      using h by (intro escalation_response) blast
    have w: "\<not> ?w \<ge> 1" using m warningCount_pos[of "agenticDecisions s"] by blast
    have st: "\<not> shouldTerminate (generateModerationResponse c ?w ?q)"
      and mm: "moderation_message (generateModerationResponse c ?w ?q) = warning_text 1 ?q"
      using gm w by auto
    have a: ?A
    proof
      assume "case evaluation_reply env of None \<Rightarrow> False | Some v \<Rightarrow> storable_evaluation v"
      then obtain v where v: "evaluation_reply env = Some v" "storable_evaluation v"
        by (auto split: option.splits)
      obtain r where ft: "finish_turn env ?l = Inr r"
        using finish_turn_answers[of env ?l] v by auto
      have "case evaluation (saved r) of None \<Rightarrow> True | Some e \<Rightarrow> valid_evaluation e"
        using finish_turn_evaluation[OF ft] assms(4) v
        by (auto simp: validates_def storable_evaluation_def valid_evaluation_def
              moderation_branch_frame receive_simps
            split: parse_result.splits)
      then have va: "validates (saved r)"
        using moderation_stored[OF assms(4) assms(1) rn ft] mm warning_text_nonempty by simp
      show "\<exists>r. sendMessage svc env message s = Inr r"
        using sendMessage_answers[OF assms(1,2,3) tb ft va] by blast
    qed
    have b: ?W
    proof (intro allI impI)
      fix r assume r: "sendMessage svc env message s = Inr r"
      have md: "moderated ?l"
        using st mm by (simp add: moderated_def moderation_branch_frame warning_text_nonempty)
      note fr = moderated_turn[OF r tb md]
      from sendMessage_Inr[OF r] tb
      have ft: "finish_turn env ?l = Inr r" and va: "validates (saved r)" by auto
      have lg: "agenticDecisions (saved r) = agenticDecisions s
                       @ [\<lparr>decision_timestamp = clock_now env, decision = Some ''MODERATE'',
                           reasoning = Some ''Inappropriate or off-topic response detected'',
                           decision_context = Some (reason c)\<rparr>]"
        using fr cl by (simp add: warning_entry_def)
      have mc: "ModerationCall \<in> set (llm_calls r)"
        using finish_turn_frame[OF ft] by (auto simp: moderation_branch_frame)
      have dc: "DecisionCall \<notin> set (llm_calls r)" using fr by blast
      have rp: "reply r = warning_text 1 ?q"
        using finish_turn_frame[OF ft] mm by (simp add: moderation_branch_frame)
      have vm: "list_all valid_message (messages s)" using assms(4) by (simp add: validates_def)
      have tx: "\<forall>before m rest.
                           messages s = before @ m # rest \<and> role m = Assistant
                           \<and> (\<forall>x\<in>set rest. role x \<noteq> Assistant) \<longrightarrow>
                           reply r =
                             ''I need you to maintain professional communication during our interview. This is your first warning. Let''
                             @ [CHR 0x27] @ ''s continue professionally. '' @ [CHR 0x0A, CHR 0x0A]
                             @ ''Let me repeat the question: '' @ content m"
      proof (intro allI impI)
        fix before m rest
        assume d: "messages s = before @ m # rest \<and> role m = Assistant
                           \<and> (\<forall>x\<in>set rest. role x \<noteq> Assistant)"
        then have "valid_message m" using vm by simp
        then have "content m \<noteq> []" by (simp add: valid_message_def)
        then have "?q = content m" using lastQuestion_last[of "messages s" before m rest] d by blast
        then show "reply r =
                             ''I need you to maintain professional communication during our interview. This is your first warning. Let''
                             @ [CHR 0x27] @ ''s continue professionally. '' @ [CHR 0x0A, CHR 0x0A]
                             @ ''Let me repeat the question: '' @ content m"
          using rp by (simp only: first_warning_text)
      qed
      show "agenticDecisions (saved r) = agenticDecisions s
                       @ [\<lparr>decision_timestamp = clock_now env, decision = Some ''MODERATE'',
                           reasoning = Some ''Inappropriate or off-topic response detected'',
                           decision_context = Some (reason c)\<rparr>]
                     \<and> ModerationCall \<in> set (llm_calls r)
                     \<and> DecisionCall \<notin> set (llm_calls r)
                     \<and> (\<forall>before m rest.
                           messages s = before @ m # rest \<and> role m = Assistant
                           \<and> (\<forall>x\<in>set rest. role x \<noteq> Assistant) \<longrightarrow>
                           reply r =
                             ''I need you to maintain professional communication during our interview. This is your first warning. Let''
                             @ [CHR 0x27] @ ''s continue professionally. '' @ [CHR 0x0A, CHR 0x0A]
                             @ ''Let me repeat the question: '' @ content m)"
        using lg mc dc tx by blast
    qed
    show "?A \<and> ?W" using a b by blast
  qed
  have third: ?P if h: "isAppropriate c \<and> \<not> containsProfanity c"
  proof (intro allI impI)
    fix r assume r: "sendMessage svc env message s = Inr r"
    from sendMessage_Inr[OF r] obtain l where
      tb: "turn_body env message s = Inr l" and ft: "finish_turn env l = Inr r" by blast
    have pm: "passes_moderation env message" using h cl by (simp add: passes_moderation_def)
    have nm: "ModerationCall \<notin> set (calls l)" using turn_body_branches[OF tb] pm by simp
    then have nm': "ModerationCall \<notin> set (llm_calls r)" using finish_turn_calls[OF ft] by auto
    have mock: "DecisionCall \<in> set (llm_calls r)
                    \<and> (\<exists>response. planner_reply env = Some response
                          \<and> agenticDecisions (saved r) = agenticDecisions s
                              @ [makeAgenticDecision (clock_planner env) response])"
      if np: "interviewMode (config s) \<noteq> Some Practice"
    proof -
      have mb: "mock_branch env ?s1 = Inr l" using turn_body_mock[OF pm np] tb by simp
      have "DecisionCall \<in> set (calls l)" using mock_branch_calls[OF mb] by simp
      then have "DecisionCall \<in> set (llm_calls r)" using finish_turn_frame[OF ft] by auto
      moreover have "\<exists>response. planner_reply env = Some response
                          \<and> agenticDecisions (saved r) = agenticDecisions s
                              @ [makeAgenticDecision (clock_planner env) response]"
        using mock_branch_log[OF mb] finish_turn_frame[OF ft] by (simp add: receive_simps)
      ultimately show ?thesis by blast
    qed
    show "ModerationCall \<notin> set (llm_calls r)
               \<and> (interviewMode (config s) \<noteq> Some Practice \<longrightarrow>
                    DecisionCall \<in> set (llm_calls r)
                    \<and> (\<exists>response. planner_reply env = Some response
                          \<and> agenticDecisions (saved r) = agenticDecisions s
                              @ [makeAgenticDecision (clock_planner env) response]))"
      using nm' mock by blast
  qed
  show ?thesis using first second third by blast
qed

theorem moderation_escalation_witness:
  "map decision (agenticDecisions (run_turns demo_service demo_session
        [(demo_env\<lparr>moderation_reply := Some (clean_json\<lparr>json_containsProfanity := True\<rparr>)\<rparr>,
          ''This is a damn waste.'')]))
     = [Some ''MODERATE'']
   \<and> containsProfanity (analyzeResponseApproppriateness
        (Some (clean_json\<lparr>json_containsProfanity := True\<rparr>)) ''Damn it.'')
   \<and> (case sendMessage demo_service
             (demo_env\<lparr>moderation_reply := Some (clean_json\<lparr>json_containsProfanity := True\<rparr>),
                clock_now := 120000\<rparr>)
             ''Damn it.''
             (run_turns demo_service demo_session
                [(demo_env\<lparr>moderation_reply := Some (clean_json\<lparr>json_containsProfanity := True\<rparr>)\<rparr>,
                  ''This is a damn waste.'')]) of
        Inl e \<Rightarrow> False
      | Inr r \<Rightarrow>
          \<not> isActive (state (saved r)) \<and> endTime (state (saved r)) = Some 120000
          \<and> phase (state (saved r)) = Completed
          \<and> map decision (agenticDecisions (saved r)) = [Some ''MODERATE'', Some ''TERMINATE'']
          \<and> llm_calls r = [AnalyzeCall, ModerationCall]
          \<and> reply r = ''I need to end our interview session here. Professional communication is required for interview practice. Thank you for your time.'')
   \<and> map decision (agenticDecisions (run_turns demo_service demo_session
        [(demo_env, ''I led the migration.'')]))
     = [Some ''MOVE_NEXT'']
   \<and> (case sendMessage demo_service
             (demo_env\<lparr>moderation_reply := Some (clean_json\<lparr>json_containsProfanity := True\<rparr>),
                clock_now := 120000\<rparr>)
             ''Damn it.''
             (run_turns demo_service demo_session [(demo_env, ''I led the migration.'')]) of
        Inl e \<Rightarrow> False
      | Inr r \<Rightarrow>
          map decision (agenticDecisions (saved r)) = [Some ''MOVE_NEXT'', Some ''MODERATE'']
          \<and> DecisionCall \<notin> set (llm_calls r)
          \<and> reply r =
              ''I need you to maintain professional communication during our interview. This is your first warning. Let''
              @ [CHR 0x27] @ ''s continue professionally. '' @ [CHR 0x0A, CHR 0x0A]
              @ ''Let me repeat the question: What was your hardest project?'')"
proof -
  let ?j = "clean_json\<lparr>json_containsProfanity := True\<rparr>"
  let ?e1 = "demo_env\<lparr>moderation_reply := Some ?j\<rparr>"
  let ?e = "demo_env\<lparr>moderation_reply := Some ?j, clock_now := 120000\<rparr>"
  let ?m = "''Damn it.''"
  let ?s1 = "run_turns demo_service demo_session [(?e1, ''This is a damn waste.'')]"
  let ?s0 = "run_turns demo_service demo_session [(demo_env, ''I led the migration.'')]"
  let ?c = "analyzeResponseApproppriateness (Some ?j) ?m"
  have c: "?c = analyzeResponseApproppriateness (moderation_reply ?e) ?m" by simp
  have h1: "?m \<noteq> []" by simp
  have h3: "activeService demo_service \<noteq> None" by (simp add: demo_service_active)
  have hp: "containsProfanity ?c" by code_simp
  have a1: "isActive (state ?s1)" by code_simp
  have v1: "validates ?s1" by code_simp
  have l1: "map decision (agenticDecisions ?s1) = [Some ''MODERATE'']" by code_simp
  then have m1: "\<exists>d\<in>set (agenticDecisions ?s1). decision d = Some ''MODERATE''"
    by (cases "agenticDecisions ?s1") auto
  from moderation_escalation[OF h1 a1 h3 v1 c] hp m1
  obtain r where r: "sendMessage demo_service ?e ?m ?s1 = Inr r"
    and f: "\<not> isActive (state (saved r))" "endTime (state (saved r)) = Some (clock_now ?e)"
      "phase (state (saved r)) = Completed"
      "agenticDecisions (saved r) = agenticDecisions ?s1
         @ [\<lparr>decision_timestamp = clock_now ?e, decision = Some ''TERMINATE'',
             reasoning = Some ''Session terminated due to inappropriate behavior'',
             decision_context = Some (reason ?c)\<rparr>]"
      "reply r = ''I need to end our interview session here. Professional communication is required for interview practice. Thank you for your time.''"
      "llm_calls r = [AnalyzeCall, ModerationCall]"
    by blast
  have "map decision (agenticDecisions (saved r)) = [Some ''MODERATE'', Some ''TERMINATE'']"
    using f(4) l1 by simp
  then have first: "case sendMessage demo_service ?e ?m ?s1 of
        Inl e \<Rightarrow> False
      | Inr r \<Rightarrow>
          \<not> isActive (state (saved r)) \<and> endTime (state (saved r)) = Some 120000
          \<and> phase (state (saved r)) = Completed
          \<and> map decision (agenticDecisions (saved r)) = [Some ''MODERATE'', Some ''TERMINATE'']
          \<and> llm_calls r = [AnalyzeCall, ModerationCall]
          \<and> reply r = ''I need to end our interview session here. Professional communication is required for interview practice. Thank you for your time.''"
    using r f by simp
  let ?a = "\<lparr>role = Assistant, content = ''What was your hardest project?'', timestamp = 60000,
             metadata = Some \<lparr>questionType = Warmup, isFollowUp = False, evaluationScore = None\<rparr>\<rparr>"
  let ?b = "[\<lparr>role = Assistant, content = ''Tell me about yourself.'', timestamp = 0,
              metadata = None\<rparr>,
             \<lparr>role = User, content = ''I led the migration.'', timestamp = 60000, metadata = None\<rparr>]"
  have a0: "isActive (state ?s0)" by code_simp
  have v0: "validates ?s0" by code_simp
  have l0: "map decision (agenticDecisions ?s0) = [Some ''MOVE_NEXT'']" by code_simp
  then have m0: "\<forall>d\<in>set (agenticDecisions ?s0). decision d \<noteq> Some ''MODERATE''"
    by (cases "agenticDecisions ?s0") auto
  have ms: "messages ?s0 = ?b @ ?a # []" by code_simp
  have "case sendMessage demo_service ?e ?m ?s0 of Inl e \<Rightarrow> False | Inr r \<Rightarrow> True"
    by code_simp
  then obtain r0 where r0: "sendMessage demo_service ?e ?m ?s0 = Inr r0"
    using answered by blast
  from moderation_escalation[OF h1 a0 h3 v0 c] hp m0 r0
  have g: "agenticDecisions (saved r0) = agenticDecisions ?s0
              @ [\<lparr>decision_timestamp = clock_now ?e, decision = Some ''MODERATE'',
                  reasoning = Some ''Inappropriate or off-topic response detected'',
                  decision_context = Some (reason ?c)\<rparr>]"
    "DecisionCall \<notin> set (llm_calls r0)"
    "\<forall>before m rest.
        messages ?s0 = before @ m # rest \<and> role m = Assistant
        \<and> (\<forall>x\<in>set rest. role x \<noteq> Assistant) \<longrightarrow>
        reply r0 =
          ''I need you to maintain professional communication during our interview. This is your first warning. Let''
          @ [CHR 0x27] @ ''s continue professionally. '' @ [CHR 0x0A, CHR 0x0A]
          @ ''Let me repeat the question: '' @ content m"
    by blast+
  have "reply r0 =
          ''I need you to maintain professional communication during our interview. This is your first warning. Let''
          @ [CHR 0x27] @ ''s continue professionally. '' @ [CHR 0x0A, CHR 0x0A]
          @ ''Let me repeat the question: '' @ content ?a"
    using g(3) ms by (intro g(3)[rule_format, of ?b ?a "[]"]) simp
  moreover have "map decision (agenticDecisions (saved r0)) = [Some ''MOVE_NEXT'', Some ''MODERATE'']"
    using g(1) l0 by simp
  ultimately have second: "case sendMessage demo_service ?e ?m ?s0 of
        Inl e \<Rightarrow> False
      | Inr r \<Rightarrow>
          map decision (agenticDecisions (saved r)) = [Some ''MOVE_NEXT'', Some ''MODERATE'']
          \<and> DecisionCall \<notin> set (llm_calls r)
          \<and> reply r =
              ''I need you to maintain professional communication during our interview. This is your first warning. Let''
              @ [CHR 0x27] @ ''s continue professionally. '' @ [CHR 0x0A, CHR 0x0A]
              @ ''Let me repeat the question: What was your hardest project?''"
    using r0 g(2) by simp
  show ?thesis using l1 hp first l0 second by blast
qed

text \<open>
  C2, as the specification states it, fails. A session holds one \<^verbatim>\<open>MODERATE\<close> entry from a
  first warning; its next message is classified with severity \<^verbatim>\<open>high\<close>, appropriate and not
  profane. The turn does not enter the moderation branch: the planner is called, its
  \<^verbatim>\<open>MOVE_NEXT\<close> is logged and the session stays active.
\<close>

theorem high_severity_counterexample:
  "analyzeResponseApproppriateness (Some (clean_json\<lparr>json_severity := Some ''high''\<rparr>))
       ''I would rather not say.''
     = \<lparr>isAppropriate = True, isOnTopic = True, containsProfanity = False, severity = ''high'',
        reason = ''Response appears appropriate''\<rparr>
   \<and> map decision (agenticDecisions (run_turns demo_service demo_session
        [(demo_env\<lparr>moderation_reply := Some (clean_json\<lparr>json_containsProfanity := True\<rparr>)\<rparr>,
          ''This is a damn waste.'')]))
     = [Some ''MODERATE'']
   \<and> (case sendMessage demo_service
           (demo_env\<lparr>moderation_reply := Some (clean_json\<lparr>json_severity := Some ''high''\<rparr>),
              clock_now := 120000\<rparr>)
           ''I would rather not say.''
           (run_turns demo_service demo_session
              [(demo_env\<lparr>moderation_reply := Some (clean_json\<lparr>json_containsProfanity := True\<rparr>)\<rparr>,
                ''This is a damn waste.'')]) of
      Inl e \<Rightarrow> False
    | Inr r \<Rightarrow>
        isActive (state (saved r))
        \<and> llm_calls r = [AnalyzeCall, DecisionCall, NextQuestionCall (Some ''MOVE_NEXT'')]
        \<and> map decision (agenticDecisions (saved r)) = [Some ''MODERATE'', Some ''MOVE_NEXT''])"
  by code_simp

text \<open>
  C3, as the code has it. On an answered turn outside practice mode that passes moderation and
  on which the planner proposes \<^verbatim>\<open>WRAP_UP\<close>, the governor hands \<^verbatim>\<open>WRAP_UP\<close> to content
  generation exactly when the elapsed minutes are at least \<open>durationMinutes * 0.8\<close> and
  \<open>questionsAsked\<close> (the message of this turn counted) is at least
  \<open>max 3 (ceiling (durationMinutes / 5))\<close>, every product and quotient being the double the
  code computes; then the session is inactive with \<^verbatim>\<open>endTime\<close> set and phase \<^verbatim>\<open>completed\<close>.
  Otherwise it hands over \<^verbatim>\<open>MOVE_NEXT\<close> and leaves the phase as it was; the turn ends with
  that phase and an active session unless the hard-termination rule fires. In particular, on
  turn 1 of a 30-minute session \<^verbatim>\<open>WRAP_UP\<close> is always demoted, and the session stays active
  with its phase provided fewer than 30 minutes have elapsed when the turn ends and the phase
  was not \<^verbatim>\<open>completed\<close>.
\<close>

theorem wrap_up_governed:
  assumes "sendMessage svc env message s = Inr r" and "turn_body env message s = Inr l"
    and "interviewMode (config s) \<noteq> Some Practice" and "passes_moderation env message"
    and "proposes env (Some ''WRAP_UP'')"
  shows "(NextQuestionCall (Some ''WRAP_UP'') \<in> set (llm_calls r) \<longleftrightarrow>
            (case startTime (state s) of
               Some start \<Rightarrow> double (of_int (clock_elapsed env - start) / (1000 * 60))
             | None \<Rightarrow> 0)
              \<ge> double (durationMinutes (config s) * double (8 / 10))
            \<and> int (questionsAsked (state s) + 1)
              \<ge> max 3 \<lceil>double (durationMinutes (config s) / 5)\<rceil>)
       \<and> (NextQuestionCall (Some ''WRAP_UP'') \<in> set (llm_calls r) \<longrightarrow>
            \<not> isActive (state (saved r)) \<and> endTime (state (saved r)) = Some (clock_now env)
            \<and> phase (state (saved r)) = Completed)
       \<and> (NextQuestionCall (Some ''WRAP_UP'') \<notin> set (llm_calls r) \<longrightarrow>
            NextQuestionCall (Some ''MOVE_NEXT'') \<in> set (llm_calls r)
            \<and> phase (state (session l)) = phase (state s)
            \<and> (\<not> shouldEndInterview (state (session l)) (durationMinutes (config s)) (clock_check env)
                 \<longrightarrow> phase (state (saved r)) = phase (state s) \<and> isActive (state (saved r))))
       \<and> (questionsAsked (state s) = 0 \<and> durationMinutes (config s) = 30 \<longrightarrow>
            NextQuestionCall (Some ''WRAP_UP'') \<notin> set (llm_calls r)
            \<and> NextQuestionCall (Some ''MOVE_NEXT'') \<in> set (llm_calls r)
            \<and> (\<forall>start. startTime (state s) = Some start
                  \<and> double (of_int (clock_check env - start) / (1000 * 60)) < 30
                  \<and> phase (state s) \<noteq> Completed
                 \<longrightarrow> isActive (state (saved r)) \<and> phase (state (saved r)) = phase (state s)))"
proof -
  from sendMessage_Inr[OF assms(1)] assms(2)
  have act: "isActive (state s)" and ft: "finish_turn env l = Inr r" by auto
  have mb: "mock_branch env (receive (clock_now env) message s) = Inr l"
    using turn_body_mock[OF assms(4) assms(3)] assms(2) by simp
  note wu = mock_branch_wrap_up[OF assms(5), of "receive (clock_now env) message s"]
  have ge: "governor_elapsed env (receive (clock_now env) message s) = governor_elapsed env s"
    by (simp add: governor_elapsed_def receive_simps)
  let ?can = "canWrapUp (governor_elapsed env s) (durationMinutes (config s)) (questionsAsked (state s) + 1)"
  have can_iff: "?can \<longleftrightarrow>
            (case startTime (state s) of
               Some start \<Rightarrow> double (of_int (clock_elapsed env - start) / (1000 * 60))
             | None \<Rightarrow> 0)
              \<ge> double (durationMinutes (config s) * double (8 / 10))
            \<and> int (questionsAsked (state s) + 1)
              \<ge> max 3 \<lceil>double (durationMinutes (config s) / 5)\<rceil>"
    by (cases "startTime (state s)")
       (simp_all add: canWrapUp_def minTimeElapsed_def minQuestions_def governor_elapsed_def
          elapsedMinutes_def)
  have honoured: "?can \<Longrightarrow> calls l = [AnalyzeCall, DecisionCall, NextQuestionCall (Some ''WRAP_UP'')]
      \<and> shouldEndSession l"
    using mb wu ge
    by (auto simp: generateNextQuestion_def receive_simps Let_def split: option.splits)
  have demoted: "\<not> ?can \<Longrightarrow> calls l = [AnalyzeCall, DecisionCall, NextQuestionCall (Some ''MOVE_NEXT'')]
      \<and> \<not> shouldEndSession l \<and> state (session l) = state (receive (clock_now env) message s)"
    using mb wu ge
    by (auto simp: generateNextQuestion_def receive_simps set_phase_def log_decision_def Let_def
        split: option.splits)
  have calls_r: "llm_calls r = calls l \<or> llm_calls r = calls l @ [EvaluationCall]"
    using finish_turn_calls[OF ft] .
  have c1: "NextQuestionCall (Some ''WRAP_UP'') \<in> set (llm_calls r) \<longleftrightarrow> ?can"
    using honoured demoted calls_r by (cases ?can) auto
  have c2: "NextQuestionCall (Some ''WRAP_UP'') \<in> set (llm_calls r) \<longrightarrow>
            \<not> isActive (state (saved r)) \<and> endTime (state (saved r)) = Some (clock_now env)
            \<and> phase (state (saved r)) = Completed"
    using c1 honoured finish_turn_ends[OF ft] by (auto simp: frozen_def)
  have cfg: "config (session l) = config s" using turn_body_frame[OF assms(2)] by simp
  have c3: "NextQuestionCall (Some ''WRAP_UP'') \<notin> set (llm_calls r) \<longrightarrow>
            NextQuestionCall (Some ''MOVE_NEXT'') \<in> set (llm_calls r)
            \<and> phase (state (session l)) = phase (state s)
            \<and> (\<not> shouldEndInterview (state (session l)) (durationMinutes (config s)) (clock_check env)
                 \<longrightarrow> phase (state (saved r)) = phase (state s) \<and> isActive (state (saved r)))"
  proof
    assume "NextQuestionCall (Some ''WRAP_UP'') \<notin> set (llm_calls r)"
    then have nc: "\<not> ?can" using c1 by simp
    note d = demoted[OF nc]
    have ph: "phase (state (session l)) = phase (state s)" "isActive (state (session l))"
      using d act by (simp_all add: receive_simps)
    have "NextQuestionCall (Some ''MOVE_NEXT'') \<in> set (llm_calls r)"
      using d calls_r by auto
    moreover have "\<not> shouldEndInterview (state (session l)) (durationMinutes (config s)) (clock_check env)
                 \<longrightarrow> phase (state (saved r)) = phase (state s) \<and> isActive (state (saved r))"
      using finish_turn_continues[OF ft] d ph cfg by auto
    ultimately show "NextQuestionCall (Some ''MOVE_NEXT'') \<in> set (llm_calls r)
            \<and> phase (state (session l)) = phase (state s)
            \<and> (\<not> shouldEndInterview (state (session l)) (durationMinutes (config s)) (clock_check env)
                 \<longrightarrow> phase (state (saved r)) = phase (state s) \<and> isActive (state (saved r)))"
      using ph by blast
  qed
  have c4: "questionsAsked (state s) = 0 \<and> durationMinutes (config s) = 30 \<longrightarrow>
            NextQuestionCall (Some ''WRAP_UP'') \<notin> set (llm_calls r)
            \<and> NextQuestionCall (Some ''MOVE_NEXT'') \<in> set (llm_calls r)
            \<and> (\<forall>start. startTime (state s) = Some start
                  \<and> double (of_int (clock_check env - start) / (1000 * 60)) < 30
                  \<and> phase (state s) \<noteq> Completed
                 \<longrightarrow> isActive (state (saved r)) \<and> phase (state (saved r)) = phase (state s))"
  proof
    assume h: "questionsAsked (state s) = 0 \<and> durationMinutes (config s) = 30"
    then have nc: "\<not> ?can" using minQuestions_30 by (simp add: canWrapUp_def)
    then have nw: "NextQuestionCall (Some ''WRAP_UP'') \<notin> set (llm_calls r)" using c1 by simp
    note d = demoted[OF nc]
    have "\<forall>start. startTime (state s) = Some start
                  \<and> double (of_int (clock_check env - start) / (1000 * 60)) < 30
                  \<and> phase (state s) \<noteq> Completed
                 \<longrightarrow> \<not> shouldEndInterview (state (session l)) (durationMinutes (config s)) (clock_check env)"
      using d h
      by (auto simp: shouldEndInterview_def elapsedMinutes_def receive_simps maxQuestions_30)
    then show "NextQuestionCall (Some ''WRAP_UP'') \<notin> set (llm_calls r)
            \<and> NextQuestionCall (Some ''MOVE_NEXT'') \<in> set (llm_calls r)
            \<and> (\<forall>start. startTime (state s) = Some start
                  \<and> double (of_int (clock_check env - start) / (1000 * 60)) < 30
                  \<and> phase (state s) \<noteq> Completed
                 \<longrightarrow> isActive (state (saved r)) \<and> phase (state (saved r)) = phase (state s))"
      using nw c3 by blast
  qed
  show ?thesis using c1 can_iff c2 c3 c4 by blast
qed

text \<open>
  Two turns: the first message of the 30-minute session, and the third message of a 3-minute
  session arriving 144000 ms after its start. There the elapsed minutes are exactly
  \<open>3 * (8 / 10)\<close> and three questions are asked, but the double \<open>3 * 0.8\<close> is above the
  double \<open>144000 / 60000\<close>, and \<^verbatim>\<open>WRAP_UP\<close> is demoted.
\<close>

theorem wrap_up_governed_witness:
  "interviewMode (config demo_session) \<noteq> Some Practice
   \<and> passes_moderation (demo_env\<lparr>planner_reply := planner_says ''WRAP_UP''\<rparr>) ''I led the migration.''
   \<and> proposes (demo_env\<lparr>planner_reply := planner_says ''WRAP_UP''\<rparr>) (Some ''WRAP_UP'')
   \<and> questionsAsked (state demo_session) = 0 \<and> durationMinutes (config demo_session) = 30
   \<and> startTime (state demo_session) = Some 0
   \<and> (case sendMessage demo_service (demo_env\<lparr>planner_reply := planner_says ''WRAP_UP''\<rparr>)
             ''I led the migration.'' demo_session of
        Inl e \<Rightarrow> False
      | Inr r \<Rightarrow>
          NextQuestionCall (Some ''MOVE_NEXT'') \<in> set (llm_calls r)
          \<and> NextQuestionCall (Some ''WRAP_UP'') \<notin> set (llm_calls r)
          \<and> isActive (state (saved r)) \<and> phase (state (saved r)) = Warmup)
   \<and> durationMinutes (config (run_turns demo_service short_session
         (replicate 2 (demo_env, ''I led the migration.'')))) = 3
   \<and> questionsAsked (state (run_turns demo_service short_session
         (replicate 2 (demo_env, ''I led the migration.'')))) = 2
   \<and> (of_int (144000 - 0) / (1000 * 60) :: rat) = 3 * (8 / 10)
   \<and> double (of_int (144000 - 0) / (1000 * 60)) < double (3 * double (8 / 10))
   \<and> (case sendMessage demo_service
             (demo_env\<lparr>planner_reply := planner_says ''WRAP_UP'', clock_now := 144000,
                clock_planner := 144000, clock_elapsed := 144000, clock_check := 144000\<rparr>)
             ''That covers it.''
             (run_turns demo_service short_session
                (replicate 2 (demo_env, ''I led the migration.''))) of
        Inl e \<Rightarrow> False
      | Inr r \<Rightarrow>
          NextQuestionCall (Some ''WRAP_UP'') \<notin> set (llm_calls r)
          \<and> NextQuestionCall (Some ''MOVE_NEXT'') \<in> set (llm_calls r))"
proof -
  let ?e = "demo_env\<lparr>planner_reply := planner_says ''WRAP_UP''\<rparr>"
  let ?m = "''I led the migration.''"
  have h1: "interviewMode (config demo_session) \<noteq> Some Practice" by (simp add: demo_session_def)
  have h2: "passes_moderation ?e ?m" by code_simp
  have h3: "proposes ?e (Some ''WRAP_UP'')" by code_simp
  have h4: "questionsAsked (state demo_session) = 0 \<and> durationMinutes (config demo_session) = 30"
    by (simp add: demo_session_def)
  have h5: "startTime (state demo_session) = Some 0" by (simp add: demo_session_def)
  have h6: "double (of_int (clock_check ?e - 0) / (1000 * 60)) < 30" by code_simp
  have h7: "phase (state demo_session) = Warmup" by (simp add: demo_session_def)
  have "case sendMessage demo_service ?e ?m demo_session of Inl e \<Rightarrow> False | Inr r \<Rightarrow> True"
    by code_simp
  then obtain r where r: "sendMessage demo_service ?e ?m demo_session = Inr r"
    using answered by blast
  from sendMessage_Inr[OF r] obtain l where l: "turn_body ?e ?m demo_session = Inr l" by blast
  from wrap_up_governed[OF r l h1 h2 h3] h4 h5 h6 h7
  have "NextQuestionCall (Some ''MOVE_NEXT'') \<in> set (llm_calls r)
      \<and> NextQuestionCall (Some ''WRAP_UP'') \<notin> set (llm_calls r)
      \<and> isActive (state (saved r)) \<and> phase (state (saved r)) = Warmup"
    by auto
  then have first: "case sendMessage demo_service ?e ?m demo_session of
        Inl e \<Rightarrow> False
      | Inr r \<Rightarrow>
          NextQuestionCall (Some ''MOVE_NEXT'') \<in> set (llm_calls r)
          \<and> NextQuestionCall (Some ''WRAP_UP'') \<notin> set (llm_calls r)
          \<and> isActive (state (saved r)) \<and> phase (state (saved r)) = Warmup"
    using r by simp
  let ?e3 = "demo_env\<lparr>planner_reply := planner_says ''WRAP_UP'', clock_now := 144000,
                clock_planner := 144000, clock_elapsed := 144000, clock_check := 144000\<rparr>"
  let ?m3 = "''That covers it.''"
  let ?s2 = "run_turns demo_service short_session (replicate 2 (demo_env, ?m))"
  have k1: "interviewMode (config ?s2) \<noteq> Some Practice" by code_simp
  have k2: "passes_moderation ?e3 ?m3" by code_simp
  have k3: "proposes ?e3 (Some ''WRAP_UP'')" by code_simp
  have k4: "durationMinutes (config ?s2) = 3" by code_simp
  have k5: "questionsAsked (state ?s2) = 2" by code_simp
  have k6: "startTime (state ?s2) = Some 0" by code_simp
  have k7: "(of_int (144000 - 0) / (1000 * 60) :: rat) = 3 * (8 / 10)" by simp
  have k8: "double (of_int (144000 - 0) / (1000 * 60)) < double (3 * double (8 / 10))"
    by code_simp
  have "case sendMessage demo_service ?e3 ?m3 ?s2 of Inl e \<Rightarrow> False | Inr r \<Rightarrow> True"
    by code_simp
  then obtain r3 where r3: "sendMessage demo_service ?e3 ?m3 ?s2 = Inr r3"
    using answered by blast
  from sendMessage_Inr[OF r3] obtain l3 where l3: "turn_body ?e3 ?m3 ?s2 = Inr l3" by blast
  from wrap_up_governed[OF r3 l3 k1 k2 k3] k4 k6 k8
  have "NextQuestionCall (Some ''WRAP_UP'') \<notin> set (llm_calls r3)
      \<and> NextQuestionCall (Some ''MOVE_NEXT'') \<in> set (llm_calls r3)"
    by auto
  then have second: "case sendMessage demo_service ?e3 ?m3 ?s2 of
        Inl e \<Rightarrow> False
      | Inr r \<Rightarrow>
          NextQuestionCall (Some ''WRAP_UP'') \<notin> set (llm_calls r)
          \<and> NextQuestionCall (Some ''MOVE_NEXT'') \<in> set (llm_calls r)"
    using r3 by simp
  show ?thesis using h1 h2 h3 h4 h5 first k4 k5 k7 k8 second by blast
qed

text \<open>
  C3, as the specification states it, fails: when the first message of a 30-minute session
  arrives 31 minutes after its start, \<^verbatim>\<open>WRAP_UP\<close> is demoted to \<^verbatim>\<open>MOVE_NEXT\<close>, but the
  hard-termination rule ends the session on that turn; it does not remain active and its
  phase is \<^verbatim>\<open>completed\<close>.
\<close>

theorem early_wrap_up_counterexample:
  "questionsAsked (state demo_session) = 0 \<and> durationMinutes (config demo_session) = 30
   \<and> proposes (demo_env\<lparr>planner_reply := planner_says ''WRAP_UP'', clock_now := 1860000,
              clock_elapsed := 1860000, clock_check := 1860000\<rparr>) (Some ''WRAP_UP'')
   \<and> (case sendMessage demo_service
           (demo_env\<lparr>planner_reply := planner_says ''WRAP_UP'', clock_now := 1860000,
              clock_elapsed := 1860000, clock_check := 1860000\<rparr>)
           ''Sorry, I was away.'' demo_session of
      Inl e \<Rightarrow> False
    | Inr r \<Rightarrow>
        NextQuestionCall (Some ''MOVE_NEXT'') \<in> set (llm_calls r)
        \<and> \<not> isActive (state (saved r)) \<and> phase (state (saved r)) = Completed)"
  by code_simp

text \<open>
  C4, as the code has it. For every answered turn whose classification \<open>c\<close> is not
  appropriate, not on-topic, not profane and of a severity other than \<^verbatim>\<open>high\<close>: the reply is
  the redirection message around the content of the last assistant message of the transcript,
  neither the planner nor content generation is called, the one entry appended to the log is
  \<^verbatim>\<open>MODERATE\<close> (the orchestrator logs no \<^verbatim>\<open>REDIRECT\<close>), \<open>questionsAsked\<close> is one more than
  before, as on every turn, and the phase is the one before the turn unless the
  hard-termination rule completes the session.
\<close>

theorem off_topic_turn:
  assumes "sendMessage svc env message s = Inr r" and "turn_body env message s = Inr l"
    and "c = analyzeResponseApproppriateness (moderation_reply env) message"
    and "\<not> isOnTopic c" and "\<not> containsProfanity c" and "\<not> isAppropriate c"
    and "severity c \<noteq> ''high''"
    and "messages s = before @ m # rest" and "role m = Assistant"
    and "\<forall>x\<in>set rest. role x \<noteq> Assistant"
  shows "reply r =
           ''I notice your response isn'' @ [CHR 0x27]
           @ ''t directly addressing the question I asked. Let me help redirect our conversation.''
           @ [CHR 0x0A, CHR 0x0A] @ ''The question was: '' @ content m @ [CHR 0x0A, CHR 0x0A]
           @ ''Could you please provide a response that specifically addresses this question about your professional experience?''
       \<and> DecisionCall \<notin> set (llm_calls r)
       \<and> (\<forall>action. NextQuestionCall action \<notin> set (llm_calls r))
       \<and> agenticDecisions (saved r) = agenticDecisions s
           @ [\<lparr>decision_timestamp = clock_now env, decision = Some ''MODERATE'',
               reasoning = Some ''Inappropriate or off-topic response detected'',
               decision_context = Some (reason c)\<rparr>]
       \<and> questionsAsked (state (saved r)) = questionsAsked (state s) + 1
       \<and> phase (state (session l)) = phase (state s)
       \<and> phase (state (saved r)) =
           (if shouldEndInterview (state (session l)) (durationMinutes (config s)) (clock_check env)
            then Completed else phase (state s))"
proof -
  from sendMessage_Inr[OF assms(1)] assms(2)
  have ft: "finish_turn env l = Inr r" and va: "validates (saved r)" by auto
  have c: "classification env message = c" using assms(3) by (simp add: classification_def)
  have np: "\<not> passes_moderation env message"
    using assms(6) c by (simp add: passes_moderation_def)
  let ?w = "warningCount (agenticDecisions s)"
  let ?q = "lastQuestion (messages s)"
  let ?s1 = "receive (clock_now env) message s"
  have l: "l = moderation_branch (clock_now env) c ?w ?q ?s1"
    using turn_body_moderation[OF np, of s] assms(2) c by simp
  have gm: "generateModerationResponse c ?w ?q
      = \<lparr>moderation_message = redirect_text ?q, shouldTerminate = False\<rparr>"
    using assms(4,5,7) by (simp add: generateModerationResponse_def)
  have md: "moderated l"
    by (simp add: moderated_def l moderation_branch_frame gm redirect_text_nonempty)
  note fr = moderated_turn[OF assms(1) assms(2) md]
  have "list_all valid_message (messages (saved r))" using va by (simp add: validates_def)
  then have "valid_message m" using fr assms(8) by simp
  then have "content m \<noteq> []" by (simp add: valid_message_def)
  then have q: "?q = content m" using lastQuestion_last[OF assms(8,9) _ assms(10)] by simp
  have "reply r = redirect_text ?q"
    using finish_turn_frame[OF ft] by (simp add: l moderation_branch_frame gm)
  then have rp: "reply r = redirect_text (content m)" using q by simp
  have nq: "\<forall>action. NextQuestionCall action \<notin> set (llm_calls r)"
    using finish_turn_calls[OF ft] by (auto simp: l moderation_branch_frame)
  have ph: "phase (state (saved r)) =
           (if shouldEndInterview (state (session l)) (durationMinutes (config s)) (clock_check env)
            then Completed else phase (state s))"
    using fr by (auto simp: frozen_def)
  show ?thesis
    using rp nq ph fr c by (simp add: redirect_text_def nl_def warning_entry_def)
qed

theorem off_topic_turn_witness:
  "\<not> isOnTopic (analyzeResponseApproppriateness
        (Some (clean_json\<lparr>json_isAppropriate := False, json_isOnTopic := False\<rparr>))
        ''The weather is nice.'')
   \<and> \<not> containsProfanity (analyzeResponseApproppriateness
        (Some (clean_json\<lparr>json_isAppropriate := False, json_isOnTopic := False\<rparr>))
        ''The weather is nice.'')
   \<and> \<not> isAppropriate (analyzeResponseApproppriateness
        (Some (clean_json\<lparr>json_isAppropriate := False, json_isOnTopic := False\<rparr>))
        ''The weather is nice.'')
   \<and> severity (analyzeResponseApproppriateness
        (Some (clean_json\<lparr>json_isAppropriate := False, json_isOnTopic := False\<rparr>))
        ''The weather is nice.'') \<noteq> ''high''
   \<and> map content (messages (run_turns demo_service demo_session
         [(demo_env, ''I led the migration.'')]))
       = [''Tell me about yourself.'', ''I led the migration.'', ''What was your hardest project?'']
   \<and> (case sendMessage demo_service
             (demo_env\<lparr>moderation_reply :=
                Some (clean_json\<lparr>json_isAppropriate := False, json_isOnTopic := False\<rparr>)\<rparr>)
             ''The weather is nice.''
             (run_turns demo_service demo_session [(demo_env, ''I led the migration.'')]) of
        Inl e \<Rightarrow> False
      | Inr r \<Rightarrow>
          reply r =
            ''I notice your response isn'' @ [CHR 0x27]
            @ ''t directly addressing the question I asked. Let me help redirect our conversation.''
            @ [CHR 0x0A, CHR 0x0A] @ ''The question was: What was your hardest project?''
            @ [CHR 0x0A, CHR 0x0A]
            @ ''Could you please provide a response that specifically addresses this question about your professional experience?''
          \<and> DecisionCall \<notin> set (llm_calls r)
          \<and> map decision (agenticDecisions (saved r)) = [Some ''MOVE_NEXT'', Some ''MODERATE'']
          \<and> questionsAsked (state (saved r)) = 2
          \<and> phase (state (saved r)) = Warmup)"
proof -
  let ?j = "clean_json\<lparr>json_isAppropriate := False, json_isOnTopic := False\<rparr>"
  let ?e = "demo_env\<lparr>moderation_reply := Some ?j\<rparr>"
  let ?m = "''The weather is nice.''"
  let ?s = "run_turns demo_service demo_session [(demo_env, ''I led the migration.'')]"
  let ?c = "analyzeResponseApproppriateness (Some ?j) ?m"
  let ?a = "\<lparr>role = Assistant, content = ''What was your hardest project?'', timestamp = 60000,
             metadata = Some \<lparr>questionType = Warmup, isFollowUp = False, evaluationScore = None\<rparr>\<rparr>"
  let ?b = "[\<lparr>role = Assistant, content = ''Tell me about yourself.'', timestamp = 0,
              metadata = None\<rparr>,
             \<lparr>role = User, content = ''I led the migration.'', timestamp = 60000, metadata = None\<rparr>]"
  have c: "?c = analyzeResponseApproppriateness (moderation_reply ?e) ?m" by simp
  have h1: "\<not> isOnTopic ?c" and h2: "\<not> containsProfanity ?c" and h3: "\<not> isAppropriate ?c"
    and h4: "severity ?c \<noteq> ''high''"
    by code_simp+
  have ms: "messages ?s = ?b @ ?a # []" by code_simp
  have ra: "role ?a = Assistant" by simp
  have rest: "\<forall>x\<in>set []. role x \<noteq> Assistant" by simp
  have mc: "map content (messages ?s)
       = [''Tell me about yourself.'', ''I led the migration.'', ''What was your hardest project?'']"
    by code_simp
  have lg: "map decision (agenticDecisions ?s) = [Some ''MOVE_NEXT'']" by code_simp
  have qa: "questionsAsked (state ?s) = 1" by code_simp
  have pw: "phase (state ?s) = Warmup" by code_simp
  have dm: "durationMinutes (config ?s) = 30" by code_simp
  have "case sendMessage demo_service ?e ?m ?s of Inl e \<Rightarrow> False | Inr r \<Rightarrow> True"
    by code_simp
  then obtain r where r: "sendMessage demo_service ?e ?m ?s = Inr r"
    using answered by blast
  from sendMessage_Inr[OF r] obtain l where l: "turn_body ?e ?m ?s = Inr l" by blast
  have ne: "case turn_body ?e ?m ?s of
      Inl e \<Rightarrow> False
    | Inr l \<Rightarrow> \<not> shouldEndInterview (state (session l)) 30 (clock_check ?e)"
    by code_simp
  then have ne': "\<not> shouldEndInterview (state (session l)) 30 (clock_check ?e)" using l by simp
  from off_topic_turn[OF r l c h1 h2 h3 h4 ms ra rest]
  have "reply r =
            ''I notice your response isn'' @ [CHR 0x27]
            @ ''t directly addressing the question I asked. Let me help redirect our conversation.''
            @ [CHR 0x0A, CHR 0x0A] @ ''The question was: What was your hardest project?''
            @ [CHR 0x0A, CHR 0x0A]
            @ ''Could you please provide a response that specifically addresses this question about your professional experience?''
          \<and> DecisionCall \<notin> set (llm_calls r)
          \<and> map decision (agenticDecisions (saved r)) = [Some ''MOVE_NEXT'', Some ''MODERATE'']
          \<and> questionsAsked (state (saved r)) = 2
          \<and> phase (state (saved r)) = Warmup"
    using lg qa pw dm ne' by simp
  then have "case sendMessage demo_service ?e ?m ?s of
        Inl e \<Rightarrow> False
      | Inr r \<Rightarrow>
          reply r =
            ''I notice your response isn'' @ [CHR 0x27]
            @ ''t directly addressing the question I asked. Let me help redirect our conversation.''
            @ [CHR 0x0A, CHR 0x0A] @ ''The question was: What was your hardest project?''
            @ [CHR 0x0A, CHR 0x0A]
            @ ''Could you please provide a response that specifically addresses this question about your professional experience?''
          \<and> DecisionCall \<notin> set (llm_calls r)
          \<and> map decision (agenticDecisions (saved r)) = [Some ''MOVE_NEXT'', Some ''MODERATE'']
          \<and> questionsAsked (state (saved r)) = 2
          \<and> phase (state (saved r)) = Warmup"
    using r by simp
  then show ?thesis using h1 h2 h3 h4 mc by blast
qed

text \<open>
  C4, as the specification states it, fails twice. On a turn classified as not appropriate, not
  on-topic and not profane, the action the orchestrator logs is \<^verbatim>\<open>MODERATE\<close>, not
  \<^verbatim>\<open>REDIRECT\<close>, and \<open>questionsAsked\<close> has progressed by one. On a turn classified as
  appropriate, not on-topic and not profane, which is what the classifier by regular
  expressions answers for random characters, the moderation branch is not entered: the
  planner is called, its \<^verbatim>\<open>CHANGE_PHASE\<close> is logged, the reply is the next question and the
  phase advances from \<^verbatim>\<open>warmup\<close> to \<^verbatim>\<open>behavioral\<close>.
\<close>

theorem off_topic_counterexample:
  "\<not> isOnTopic (analyzeResponseApproppriateness
        (Some (clean_json\<lparr>json_isAppropriate := False, json_isOnTopic := False\<rparr>))
        ''The weather is nice.'')
   \<and> \<not> containsProfanity (analyzeResponseApproppriateness
        (Some (clean_json\<lparr>json_isAppropriate := False, json_isOnTopic := False\<rparr>))
        ''The weather is nice.'')
   \<and> (case sendMessage demo_service
           (demo_env\<lparr>moderation_reply :=
              Some (clean_json\<lparr>json_isAppropriate := False, json_isOnTopic := False\<rparr>)\<rparr>)
           ''The weather is nice.'' demo_session of
      Inl e \<Rightarrow> False
    | Inr r \<Rightarrow>
        map decision (agenticDecisions (saved r)) = [Some ''MODERATE'']
        \<and> questionsAsked (state demo_session) = 0 \<and> questionsAsked (state (saved r)) = 1)
   \<and> analyzeResponseApproppriateness
        (Some (clean_json\<lparr>json_isOnTopic := False,
                 json_reason := Some ''Response appears to be random characters''\<rparr>))
        ''asdf''
       = \<lparr>isAppropriate = True, isOnTopic = False, containsProfanity = False, severity = ''low'',
          reason = ''Response appears to be random characters''\<rparr>
   \<and> (case sendMessage demo_service
           (demo_env\<lparr>moderation_reply :=
              Some (clean_json\<lparr>json_isOnTopic := False,
                      json_reason := Some ''Response appears to be random characters''\<rparr>),
              planner_reply := planner_says ''CHANGE_PHASE''\<rparr>)
           ''asdf'' demo_session of
      Inl e \<Rightarrow> False
    | Inr r \<Rightarrow>
        llm_calls r = [AnalyzeCall, DecisionCall, NextQuestionCall (Some ''CHANGE_PHASE'')]
        \<and> reply r = ''What was your hardest project?''
        \<and> map decision (agenticDecisions (saved r)) = [Some ''CHANGE_PHASE'']
        \<and> phase (state demo_session) = Warmup \<and> phase (state (saved r)) = Behavioral)"
  by code_simp




text \<open>
  C6, as the code has it. \<^verbatim>\<open>getNextPhase\<close> answers the entry that follows its argument in
  \<^verbatim>\<open>[warmup, behavioral, technical, system_design, product, wrap_up]\<close>, and \<^verbatim>\<open>wrap_up\<close> for
  \<^verbatim>\<open>wrap_up\<close>. For a phase that is not in the list (\<^verbatim>\<open>setup\<close>, \<^verbatim>\<open>completed\<close>) it answers the
  first entry, \<^verbatim>\<open>warmup\<close>: \<^verbatim>\<open>indexOf\<close> is \<open>-1\<close> there and the read is at index 0.
\<close>

theorem getNextPhase_follows_list:
  "(\<forall>i<5. getNextPhase (phases ! i) = phases ! (i + 1))
   \<and> getNextPhase WrapUp = WrapUp
   \<and> (\<forall>p. p \<notin> set phases \<longrightarrow> getNextPhase p = Warmup)"
proof (intro conjI allI impI)
  fix i :: nat assume "i < 5"
  then have "i = 0 \<or> i = 1 \<or> i = 2 \<or> i = 3 \<or> i = 4" by arith
  then show "getNextPhase (phases ! i) = phases ! (i + 1)"
    by (auto simp: getNextPhase_cases phases_def)
next
  show "getNextPhase WrapUp = WrapUp" by (simp add: getNextPhase_cases)
next
  fix p assume "p \<notin> set phases"
  then show "getNextPhase p = Warmup"
    by (cases p) (simp_all add: getNextPhase_cases phases_def)
qed

theorem getNextPhase_follows_list_witness:
  "(2::nat) < 5 \<and> getNextPhase (phases ! 2) = phases ! 3
   \<and> Setup \<notin> set phases \<and> getNextPhase Setup = Warmup"
proof -
  have a: "(2::nat) < 5" by simp
  have b: "Setup \<notin> set phases" by (simp add: phases_def)
  from getNextPhase_follows_list a have "getNextPhase (phases ! 2) = phases ! (2 + 1)" by blast
  moreover from getNextPhase_follows_list b have "getNextPhase Setup = Warmup" by blast
  ultimately show ?thesis using a b by simp
qed

text \<open>
  C6, as the specification states it, fails: for \<^verbatim>\<open>setup\<close>, which is not in the list, the
  answer is not \<^verbatim>\<open>wrap_up\<close>.
\<close>

theorem getNextPhase_not_found_counterexample:
  "getNextPhase Setup \<noteq> WrapUp"
  by (simp add: getNextPhase_def phases_def at_index_def)

text \<open>
  C7, as the code has it, for a turn outside practice mode on a stored, active session, with a
  message that is not empty and passes moderation, a content reply that is not empty and an
  evaluation reply that can be stored. When the planner's payload does not parse, or parses to
  \<^verbatim>\<open>null\<close>, the turn is answered: the reply is the generated question, the transcript gains
  the user message and that question, the one entry appended to the log is \<^verbatim>\<open>MOVE_NEXT\<close> with
  the fixed reasoning \<^verbatim>\<open>Default action due to parsing error\<close> and the fixed context
  \<^verbatim>\<open>Failed to parse AI decision response\<close>, content is generated for \<^verbatim>\<open>MOVE_NEXT\<close>, and the
  phase is the one before the turn unless the hard-termination rule completes the session.
  When the payload parses to an object whose action is a text other than \<^verbatim>\<open>WRAP_UP\<close> and
  \<^verbatim>\<open>CHANGE_PHASE\<close>, for instance an unknown one, and whose action, reasoning and context are
  not empty, the turn is answered in the same way, but the decision is not replaced: it is
  logged as it came and content is generated for it.
\<close>

theorem planner_parse_failure:
  assumes "message \<noteq> []" and "isActive (state s)" and "activeService svc \<noteq> None"
    and "validates s" and "interviewMode (config s) \<noteq> Some Practice"
    and "passes_moderation env message"
    and "planner_reply env = Some response"
    and "question_reply env = Some question" and "question \<noteq> []"
    and "evaluation_reply env = Some v" and "storable_evaluation v"
  shows "((\<exists>raw. response = SyntaxError raw) \<or> response = ParsedJson PlannerNull \<longrightarrow>
            (\<exists>r. sendMessage svc env message s = Inr r
               \<and> reply r = question
               \<and> messages (saved r) = messages s @
                   [\<lparr>role = User, content = message, timestamp = clock_now env, metadata = None\<rparr>,
                    \<lparr>role = Assistant, content = question, timestamp = clock_now env,
                     metadata = Some \<lparr>questionType = phase (state s), isFollowUp = False,
                                      evaluationScore = None\<rparr>\<rparr>]
               \<and> agenticDecisions (saved r) = agenticDecisions s @
                   [\<lparr>decision_timestamp = clock_planner env, decision = Some ''MOVE_NEXT'',
                     reasoning = Some ''Default action due to parsing error'',
                     decision_context = Some ''Failed to parse AI decision response''\<rparr>]
               \<and> NextQuestionCall (Some ''MOVE_NEXT'') \<in> set (llm_calls r)
               \<and> (phase (state (saved r)) = phase (state s)
                  \<or> \<not> isActive (state (saved r)) \<and> phase (state (saved r)) = Completed)))
       \<and> (\<forall>d a why ctx.
             response = ParsedJson (PlannerFields d) \<and> json_decision d = Some a \<and> a \<noteq> []
             \<and> a \<noteq> ''WRAP_UP'' \<and> a \<noteq> ''CHANGE_PHASE''
             \<and> json_reasoning d = Some why \<and> why \<noteq> [] \<and> json_context d = Some ctx \<and> ctx \<noteq> [] \<longrightarrow>
            (\<exists>r. sendMessage svc env message s = Inr r
               \<and> reply r = question
               \<and> messages (saved r) = messages s @
                   [\<lparr>role = User, content = message, timestamp = clock_now env, metadata = None\<rparr>,
                    \<lparr>role = Assistant, content = question, timestamp = clock_now env,
                     metadata = Some \<lparr>questionType = phase (state s), isFollowUp = False,
                                      evaluationScore = None\<rparr>\<rparr>]
               \<and> agenticDecisions (saved r) = agenticDecisions s @
                   [\<lparr>decision_timestamp = clock_planner env, decision = Some a,
                     reasoning = Some why, decision_context = Some ctx\<rparr>]
               \<and> NextQuestionCall (Some a) \<in> set (llm_calls r)
               \<and> (phase (state (saved r)) = phase (state s)
                  \<or> \<not> isActive (state (saved r)) \<and> phase (state (saved r)) = Completed)))"
proof -
  let ?s1 = "receive (clock_now env) message s"
  let ?d = "makeAgenticDecision (clock_planner env) response"
  have tbm: "turn_body env message s = mock_branch env ?s1"
    using turn_body_mock[OF assms(6) assms(5)] .
  have default: "\<exists>r. sendMessage svc env message s = Inr r
               \<and> reply r = question
               \<and> messages (saved r) = messages s @
                   [\<lparr>role = User, content = message, timestamp = clock_now env, metadata = None\<rparr>,
                    \<lparr>role = Assistant, content = question, timestamp = clock_now env,
                     metadata = Some \<lparr>questionType = phase (state s), isFollowUp = False,
                                      evaluationScore = None\<rparr>\<rparr>]
               \<and> agenticDecisions (saved r) = agenticDecisions s @ [?d]
               \<and> NextQuestionCall (decision ?d) \<in> set (llm_calls r)
               \<and> (phase (state (saved r)) = phase (state s)
                  \<or> \<not> isActive (state (saved r)) \<and> phase (state (saved r)) = Completed)"
    if vd: "valid_decision ?d" and nw: "decision ?d \<noteq> Some ''WRAP_UP''"
      and nc: "decision ?d \<noteq> Some ''CHANGE_PHASE''"
  proof -
    from mock_turn_answered[OF assms(1,2,3,4,5,6,7) vd assms(8,9,10,11)]
    obtain l r where tb: "turn_body env message s = Inr l" and ft: "finish_turn env l = Inr r"
      and sm: "sendMessage svc env message s = Inr r" and ai: "aiResponse l = question"
      and lg: "agenticDecisions (session l) = agenticDecisions s @ [?d]"
      by blast
    have mb: "mock_branch env ?s1 = Inr l" using tb tbm by simp
    have u: "calls l = [AnalyzeCall, DecisionCall, NextQuestionCall (decision ?d)]"
      "state (session l) = state ?s1" "messages (session l) = messages ?s1"
      "config (session l) = config s" "practiceScore l = None" "\<not> shouldEndSession l"
      using mb assms(7,8) nw nc
      by (auto simp: mock_branch_def generateNextQuestion_def log_decision_def set_phase_def
            receive_simps Let_def)
    have rp: "reply r = question" using finish_turn_frame[OF ft] ai by simp
    have ms: "messages (saved r) = messages s @
                   [\<lparr>role = User, content = message, timestamp = clock_now env, metadata = None\<rparr>,
                    \<lparr>role = Assistant, content = question, timestamp = clock_now env,
                     metadata = Some \<lparr>questionType = phase (state s), isFollowUp = False,
                                      evaluationScore = None\<rparr>\<rparr>]"
      using finish_turn_messages[OF ft] u ai assms(5) by (simp add: receive_simps)
    have ld: "agenticDecisions (saved r) = agenticDecisions s @ [?d]"
      using finish_turn_frame[OF ft] lg by simp
    have cs: "NextQuestionCall (decision ?d) \<in> set (llm_calls r)"
      using finish_turn_frame[OF ft] u(1) by auto
    have ph: "phase (state (saved r)) = phase (state s)
        \<or> \<not> isActive (state (saved r)) \<and> phase (state (saved r)) = Completed"
    proof (cases "shouldEndInterview (state (session l)) (durationMinutes (config (session l)))
        (clock_check env)")
      case True
      then show ?thesis using finish_turn_ends[OF ft] by (auto simp: frozen_def)
    next
      case False
      then show ?thesis using finish_turn_continues[OF ft u(6)] u(2) by (simp add: receive_simps)
    qed
    show ?thesis using sm rp ms ld cs ph by blast
  qed
  have p1: "(\<exists>raw. response = SyntaxError raw) \<or> response = ParsedJson PlannerNull \<longrightarrow>
            (\<exists>r. sendMessage svc env message s = Inr r
               \<and> reply r = question
               \<and> messages (saved r) = messages s @
                   [\<lparr>role = User, content = message, timestamp = clock_now env, metadata = None\<rparr>,
                    \<lparr>role = Assistant, content = question, timestamp = clock_now env,
                     metadata = Some \<lparr>questionType = phase (state s), isFollowUp = False,
                                      evaluationScore = None\<rparr>\<rparr>]
               \<and> agenticDecisions (saved r) = agenticDecisions s @
                   [\<lparr>decision_timestamp = clock_planner env, decision = Some ''MOVE_NEXT'',
                     reasoning = Some ''Default action due to parsing error'',
                     decision_context = Some ''Failed to parse AI decision response''\<rparr>]
               \<and> NextQuestionCall (Some ''MOVE_NEXT'') \<in> set (llm_calls r)
               \<and> (phase (state (saved r)) = phase (state s)
                  \<or> \<not> isActive (state (saved r)) \<and> phase (state (saved r)) = Completed))"
  proof
    assume "(\<exists>raw. response = SyntaxError raw) \<or> response = ParsedJson PlannerNull"
    then have d: "?d = \<lparr>decision_timestamp = clock_planner env, decision = Some ''MOVE_NEXT'',
                     reasoning = Some ''Default action due to parsing error'',
                     decision_context = Some ''Failed to parse AI decision response''\<rparr>"
      by (auto simp: makeAgenticDecision_def parse_fallback_def)
    have "valid_decision ?d" "decision ?d \<noteq> Some ''WRAP_UP''" "decision ?d \<noteq> Some ''CHANGE_PHASE''"
      by (simp_all add: d valid_decision_def required_text_def)
    from default[OF this] show "\<exists>r. sendMessage svc env message s = Inr r
               \<and> reply r = question
               \<and> messages (saved r) = messages s @
                   [\<lparr>role = User, content = message, timestamp = clock_now env, metadata = None\<rparr>,
                    \<lparr>role = Assistant, content = question, timestamp = clock_now env,
                     metadata = Some \<lparr>questionType = phase (state s), isFollowUp = False,
                                      evaluationScore = None\<rparr>\<rparr>]
               \<and> agenticDecisions (saved r) = agenticDecisions s @
                   [\<lparr>decision_timestamp = clock_planner env, decision = Some ''MOVE_NEXT'',
                     reasoning = Some ''Default action due to parsing error'',
                     decision_context = Some ''Failed to parse AI decision response''\<rparr>]
               \<and> NextQuestionCall (Some ''MOVE_NEXT'') \<in> set (llm_calls r)
               \<and> (phase (state (saved r)) = phase (state s)
                  \<or> \<not> isActive (state (saved r)) \<and> phase (state (saved r)) = Completed)"
      by (simp add: d)
  qed
  have p2: "\<forall>d a why ctx.
             response = ParsedJson (PlannerFields d) \<and> json_decision d = Some a \<and> a \<noteq> []
             \<and> a \<noteq> ''WRAP_UP'' \<and> a \<noteq> ''CHANGE_PHASE''
             \<and> json_reasoning d = Some why \<and> why \<noteq> [] \<and> json_context d = Some ctx \<and> ctx \<noteq> [] \<longrightarrow>
            (\<exists>r. sendMessage svc env message s = Inr r
               \<and> reply r = question
               \<and> messages (saved r) = messages s @
                   [\<lparr>role = User, content = message, timestamp = clock_now env, metadata = None\<rparr>,
                    \<lparr>role = Assistant, content = question, timestamp = clock_now env,
                     metadata = Some \<lparr>questionType = phase (state s), isFollowUp = False,
                                      evaluationScore = None\<rparr>\<rparr>]
               \<and> agenticDecisions (saved r) = agenticDecisions s @
                   [\<lparr>decision_timestamp = clock_planner env, decision = Some a,
                     reasoning = Some why, decision_context = Some ctx\<rparr>]
               \<and> NextQuestionCall (Some a) \<in> set (llm_calls r)
               \<and> (phase (state (saved r)) = phase (state s)
                  \<or> \<not> isActive (state (saved r)) \<and> phase (state (saved r)) = Completed))"
  proof (intro allI impI)
    fix d a why ctx
    assume h: "response = ParsedJson (PlannerFields d) \<and> json_decision d = Some a \<and> a \<noteq> []
             \<and> a \<noteq> ''WRAP_UP'' \<and> a \<noteq> ''CHANGE_PHASE''
             \<and> json_reasoning d = Some why \<and> why \<noteq> [] \<and> json_context d = Some ctx \<and> ctx \<noteq> []"
    then have d: "?d = \<lparr>decision_timestamp = clock_planner env, decision = Some a,
                     reasoning = Some why, decision_context = Some ctx\<rparr>"
      by (simp add: makeAgenticDecision_def)
    have "valid_decision ?d" "decision ?d \<noteq> Some ''WRAP_UP''" "decision ?d \<noteq> Some ''CHANGE_PHASE''"
      unfolding d using h by (simp_all add: valid_decision_def required_text_def)
    from default[OF this] show "\<exists>r. sendMessage svc env message s = Inr r
               \<and> reply r = question
               \<and> messages (saved r) = messages s @
                   [\<lparr>role = User, content = message, timestamp = clock_now env, metadata = None\<rparr>,
                    \<lparr>role = Assistant, content = question, timestamp = clock_now env,
                     metadata = Some \<lparr>questionType = phase (state s), isFollowUp = False,
                                      evaluationScore = None\<rparr>\<rparr>]
               \<and> agenticDecisions (saved r) = agenticDecisions s @
                   [\<lparr>decision_timestamp = clock_planner env, decision = Some a,
                     reasoning = Some why, decision_context = Some ctx\<rparr>]
               \<and> NextQuestionCall (Some a) \<in> set (llm_calls r)
               \<and> (phase (state (saved r)) = phase (state s)
                  \<or> \<not> isActive (state (saved r)) \<and> phase (state (saved r)) = Completed)"
      by (simp add: d)
  qed
  show ?thesis using p1 p2 by blast
qed

theorem planner_parse_failure_witness:
  "passes_moderation
        (demo_env\<lparr>planner_reply := Some (SyntaxError ''I think we should move'')\<rparr>)
        ''I led the migration.''
   \<and> validates demo_session
   \<and> (case sendMessage demo_service
             (demo_env\<lparr>planner_reply := Some (SyntaxError ''I think we should move'')\<rparr>)
             ''I led the migration.'' demo_session of
        Inl e \<Rightarrow> False
      | Inr r \<Rightarrow>
          reply r = ''What was your hardest project?''
          \<and> map content (messages (saved r))
              = [''Tell me about yourself.'', ''I led the migration.'',
                 ''What was your hardest project?'']
          \<and> agenticDecisions (saved r) =
              [\<lparr>decision_timestamp = 60001, decision = Some ''MOVE_NEXT'',
                reasoning = Some ''Default action due to parsing error'',
                decision_context = Some ''Failed to parse AI decision response''\<rparr>]
          \<and> NextQuestionCall (Some ''MOVE_NEXT'') \<in> set (llm_calls r))
   \<and> (case sendMessage demo_service (demo_env\<lparr>planner_reply := planner_says ''SKIP_AHEAD''\<rparr>)
             ''I led the migration.'' demo_session of
        Inl e \<Rightarrow> False
      | Inr r \<Rightarrow>
          reply r = ''What was your hardest project?''
          \<and> agenticDecisions (saved r) =
              [\<lparr>decision_timestamp = 60001, decision = Some ''SKIP_AHEAD'',
                reasoning = Some ''because'', decision_context = Some ''seen''\<rparr>]
          \<and> NextQuestionCall (Some ''SKIP_AHEAD'') \<in> set (llm_calls r))"
proof -
  let ?e = "demo_env\<lparr>planner_reply := Some (SyntaxError ''I think we should move'')\<rparr>"
  let ?u = "demo_env\<lparr>planner_reply := planner_says ''SKIP_AHEAD''\<rparr>"
  let ?m = "''I led the migration.''"
  let ?v = "ParsedJson (EvaluationObject fair_evaluation)"
  let ?d = "\<lparr>json_decision = Some ''SKIP_AHEAD'', json_reasoning = Some ''because'',
             json_context = Some ''seen''\<rparr>"
  have h1: "?m \<noteq> []" by simp
  have h2: "isActive (state demo_session)" by (simp add: demo_session_def)
  have h3: "activeService demo_service \<noteq> None" by (simp add: demo_service_active)
  have h4: "validates demo_session" by code_simp
  have h5: "interviewMode (config demo_session) \<noteq> Some Practice" by (simp add: demo_session_def)
  have h6: "passes_moderation ?e ?m" by code_simp
  have h7: "planner_reply ?e = Some (SyntaxError ''I think we should move'')" by simp
  have h8: "question_reply ?e = Some ''What was your hardest project?''"
    by (simp add: demo_env_def)
  have h9: "''What was your hardest project?'' \<noteq> []" by simp
  have h10: "evaluation_reply ?e = Some ?v" by (simp add: demo_env_def)
  have h11: "storable_evaluation ?v" by code_simp
  have st: "agenticDecisions demo_session = []" "clock_planner ?e = 60001"
    "map content (messages demo_session) = [''Tell me about yourself.'']"
    by (simp_all add: demo_session_def demo_env_def)
  from planner_parse_failure[OF h1 h2 h3 h4 h5 h6 h7 h8 h9 h10 h11]
  obtain r where r: "sendMessage demo_service ?e ?m demo_session = Inr r"
    and f: "reply r = ''What was your hardest project?''"
      "messages (saved r) = messages demo_session @
         [\<lparr>role = User, content = ?m, timestamp = clock_now ?e, metadata = None\<rparr>,
          \<lparr>role = Assistant, content = ''What was your hardest project?'', timestamp = clock_now ?e,
           metadata = Some \<lparr>questionType = phase (state demo_session), isFollowUp = False,
                            evaluationScore = None\<rparr>\<rparr>]"
      "agenticDecisions (saved r) = agenticDecisions demo_session @
         [\<lparr>decision_timestamp = clock_planner ?e, decision = Some ''MOVE_NEXT'',
           reasoning = Some ''Default action due to parsing error'',
           decision_context = Some ''Failed to parse AI decision response''\<rparr>]"
      "NextQuestionCall (Some ''MOVE_NEXT'') \<in> set (llm_calls r)"
    by blast
  then have first: "case sendMessage demo_service ?e ?m demo_session of
        Inl e \<Rightarrow> False
      | Inr r \<Rightarrow>
          reply r = ''What was your hardest project?''
          \<and> map content (messages (saved r))
              = [''Tell me about yourself.'', ''I led the migration.'',
                 ''What was your hardest project?'']
          \<and> agenticDecisions (saved r) =
              [\<lparr>decision_timestamp = 60001, decision = Some ''MOVE_NEXT'',
                reasoning = Some ''Default action due to parsing error'',
                decision_context = Some ''Failed to parse AI decision response''\<rparr>]
          \<and> NextQuestionCall (Some ''MOVE_NEXT'') \<in> set (llm_calls r)"
    using st by simp
  have k6: "passes_moderation ?u ?m" by code_simp
  have k7: "planner_reply ?u = Some (ParsedJson (PlannerFields ?d))" by (simp add: planner_says_def)
  have k8: "question_reply ?u = Some ''What was your hardest project?''"
    by (simp add: demo_env_def)
  have k10: "evaluation_reply ?u = Some ?v" by (simp add: demo_env_def)
  have ku: "ParsedJson (PlannerFields ?d) = ParsedJson (PlannerFields ?d)
      \<and> json_decision ?d = Some ''SKIP_AHEAD'' \<and> ''SKIP_AHEAD'' \<noteq> []
      \<and> ''SKIP_AHEAD'' \<noteq> ''WRAP_UP'' \<and> ''SKIP_AHEAD'' \<noteq> ''CHANGE_PHASE''
      \<and> json_reasoning ?d = Some ''because'' \<and> ''because'' \<noteq> []
      \<and> json_context ?d = Some ''seen'' \<and> ''seen'' \<noteq> []"
    by simp
  have cu: "clock_planner ?u = 60001" by (simp add: demo_env_def)
  from planner_parse_failure[OF h1 h2 h3 h4 h5 k6 k7 k8 h9 k10 h11] ku
  obtain r' where r': "sendMessage demo_service ?u ?m demo_session = Inr r'"
    and g: "reply r' = ''What was your hardest project?''"
      "agenticDecisions (saved r') = agenticDecisions demo_session @
         [\<lparr>decision_timestamp = clock_planner ?u, decision = Some ''SKIP_AHEAD'',
           reasoning = Some ''because'', decision_context = Some ''seen''\<rparr>]"
      "NextQuestionCall (Some ''SKIP_AHEAD'') \<in> set (llm_calls r')"
    by blast
  then have second: "case sendMessage demo_service ?u ?m demo_session of
        Inl e \<Rightarrow> False
      | Inr r \<Rightarrow>
          reply r = ''What was your hardest project?''
          \<and> agenticDecisions (saved r) =
              [\<lparr>decision_timestamp = 60001, decision = Some ''SKIP_AHEAD'',
                reasoning = Some ''because'', decision_context = Some ''seen''\<rparr>]
          \<and> NextQuestionCall (Some ''SKIP_AHEAD'') \<in> set (llm_calls r)"
    using st(1) cu by simp
  show ?thesis using h6 h4 first second by blast
qed

text \<open>
  C7, as the specification states it, fails three times: a payload that parses with an unknown
  action is not replaced by \<^verbatim>\<open>MOVE_NEXT\<close>, the unknown action is what the decision log holds;
  the context of the parse-failure decision is a fixed text, not the reply cut short; and a
  payload that parses without an action is logged without one, which \<^verbatim>\<open>session.save()\<close>
  rejects (\<^verbatim>\<open>decision\<close> is required), so that the caller is answered 500.
\<close>

theorem unknown_action_counterexample:
  "(case sendMessage demo_service (demo_env\<lparr>planner_reply := planner_says ''SKIP_AHEAD''\<rparr>)
           ''I led the migration.'' demo_session of
      Inl e \<Rightarrow> False
    | Inr r \<Rightarrow> map_option decision (last_decision (saved r)) = Some (Some ''SKIP_AHEAD''))
   \<and> decision_context (makeAgenticDecision 60001 (SyntaxError ''I think we should move''))
       = Some ''Failed to parse AI decision response''
   \<and> (case sendMessage demo_service
           (demo_env\<lparr>planner_reply := Some (ParsedJson (PlannerFields
              \<lparr>json_decision = None, json_reasoning = Some ''because'',
               json_context = Some ''seen''\<rparr>))\<rparr>)
           ''I led the migration.'' demo_session of
      Inl e \<Rightarrow> e = ServerError ''Failed to process message''
    | Inr r \<Rightarrow> False)"
  by code_simp

text \<open>
  C8. \<^verbatim>\<open>initializeServices\<close> makes Bedrock the active provider when it is enabled and
  answers its probe, otherwise Ollama when that answers, otherwise none. Whatever calls follow
  (health checks, name queries, delegated calls) and whatever the providers answer to later
  probes, the facade is the one initialisation left: the active provider does not change, and
  the health check names the same provider every time. In particular, when Bedrock was
  enabled but unreachable at start-up and Ollama was reachable, every later health check
  names Ollama.
\<close>

theorem active_provider_never_changes:
  "activeService (initializeServices e) =
      (if useBedrock e \<and> bedrock_constructed e \<and> bedrock_connected e then Some BedrockService
       else if ollama_constructed e \<and> ollama_connected e then Some OllamaService
       else None)
   \<and> facade_run (initializeServices e) cws = initializeServices e
   \<and> activeService (facade_run (initializeServices e) cws) = activeService (initializeServices e)
   \<and> getActiveServiceName (facade_run (initializeServices e) cws)
       = getActiveServiceName (initializeServices e)
   \<and> snd (healthCheck (facade_run (initializeServices e) cws) w)
       = getActiveServiceName (initializeServices e)
   \<and> (useBedrock e \<and> bedrock_constructed e \<and> \<not> bedrock_connected e
        \<and> ollama_constructed e \<and> ollama_connected e
      \<longrightarrow> snd (healthCheck (facade_run (initializeServices e) cws) w) = ''Ollama'')"
  by (auto simp: facade_run_id healthCheck_def initializeServices_def getActiveServiceName_def
        Let_def)

theorem active_provider_never_changes_witness:
  "useBedrock demo_startup \<and> bedrock_constructed demo_startup \<and> \<not> bedrock_connected demo_startup
   \<and> ollama_constructed demo_startup \<and> ollama_connected demo_startup
   \<and> activeService
        (facade_run demo_service
           [(TestConnection, \<lparr>bedrock_reachable = True, ollama_reachable = True\<rparr>),
            (DelegatedCall, \<lparr>bedrock_reachable = True, ollama_reachable = False\<rparr>),
            (GetActiveServiceName, \<lparr>bedrock_reachable = True, ollama_reachable = True\<rparr>)])
      = Some OllamaService
   \<and> snd (healthCheck
        (facade_run demo_service
           [(TestConnection, \<lparr>bedrock_reachable = True, ollama_reachable = True\<rparr>),
            (DelegatedCall, \<lparr>bedrock_reachable = True, ollama_reachable = False\<rparr>),
            (GetActiveServiceName, \<lparr>bedrock_reachable = True, ollama_reachable = True\<rparr>)])
        \<lparr>bedrock_reachable = True, ollama_reachable = True\<rparr>) = ''Ollama''"
proof -
  let ?cws = "[(TestConnection, \<lparr>bedrock_reachable = True, ollama_reachable = True\<rparr>),
               (DelegatedCall, \<lparr>bedrock_reachable = True, ollama_reachable = False\<rparr>),
               (GetActiveServiceName, \<lparr>bedrock_reachable = True, ollama_reachable = True\<rparr>)]"
  let ?w = "\<lparr>bedrock_reachable = True, ollama_reachable = True\<rparr>"
  have h: "useBedrock demo_startup \<and> bedrock_constructed demo_startup
      \<and> \<not> bedrock_connected demo_startup \<and> ollama_constructed demo_startup
      \<and> ollama_connected demo_startup"
    by (simp add: demo_startup_def)
  note fixed = active_provider_never_changes[of demo_startup ?cws ?w]
  from fixed have "activeService (facade_run (initializeServices demo_startup) ?cws)
      = activeService (initializeServices demo_startup)"
    by blast
  then have a: "activeService (facade_run demo_service ?cws) = Some OllamaService"
    using demo_service_active by (simp only: demo_service_def)
  from fixed h have "snd (healthCheck (facade_run (initializeServices demo_startup) ?cws) ?w)
      = ''Ollama''"
    by blast
  then have b: "snd (healthCheck (facade_run demo_service ?cws) ?w) = ''Ollama''"
    by (simp only: demo_service_def)
  show ?thesis using h a b by blast
qed

text \<open>
  C9, at a failing input. A 30-minute mock session answers six messages, the planner
  proposing \<^verbatim>\<open>MOVE_NEXT\<close>; on the seventh, 25 minutes after the start, the planner proposes
  \<^verbatim>\<open>WRAP_UP\<close>, which the governor honours. Moderation did not end the turn and the
  hard-termination condition holds (\<open>questionsAsked = 7\<close>), yet the session is frozen with
  no evaluation and without an evaluation call: the honoured \<^verbatim>\<open>WRAP_UP\<close> sets
  \<^verbatim>\<open>shouldEndSession\<close>, the flag that \<^verbatim>\<open>if (!shouldEndSession)\<close> reads before generating the
  evaluation.
\<close>

theorem honoured_wrap_up_skips_evaluation:
  "(case turn_body
           (demo_env\<lparr>planner_reply := planner_says ''WRAP_UP'', clock_now := 1500000,
              clock_elapsed := 1500000, clock_check := 1500000\<rparr>)
           ''That covers it.''
           (run_turns demo_service demo_session (replicate 6 (demo_env, ''I led the migration.''))) of
      Inl e \<Rightarrow> False
    | Inr l \<Rightarrow>
        ModerationCall \<notin> set (calls l)
        \<and> shouldEndInterview (state (session l)) (durationMinutes (config (session l))) 1500000)
   \<and> (case sendMessage demo_service
           (demo_env\<lparr>planner_reply := planner_says ''WRAP_UP'', clock_now := 1500000,
              clock_elapsed := 1500000, clock_check := 1500000\<rparr>)
           ''That covers it.''
           (run_turns demo_service demo_session (replicate 6 (demo_env, ''I led the migration.''))) of
      Inl e \<Rightarrow> False
    | Inr r \<Rightarrow>
        questionsAsked (state (saved r)) = 7 \<and> frozen (saved r)
        \<and> evaluation (saved r) = None \<and> EvaluationCall \<notin> set (llm_calls r))"
  by code_simp

theorem honoured_wrap_up_skips_evaluation_witness:
  "\<exists>r. sendMessage demo_service
           (demo_env\<lparr>planner_reply := planner_says ''WRAP_UP'', clock_now := 1500000,
              clock_elapsed := 1500000, clock_check := 1500000\<rparr>)
           ''That covers it.''
           (run_turns demo_service demo_session (replicate 6 (demo_env, ''I led the migration.'')))
         = Inr r
       \<and> frozen (saved r) \<and> evaluation (saved r) = None"
proof -
  let ?t = "sendMessage demo_service
           (demo_env\<lparr>planner_reply := planner_says ''WRAP_UP'', clock_now := 1500000,
              clock_elapsed := 1500000, clock_check := 1500000\<rparr>)
           ''That covers it.''
           (run_turns demo_service demo_session (replicate 6 (demo_env, ''I led the migration.'')))"
  from honoured_wrap_up_skips_evaluation
  have c: "case ?t of
      Inl e \<Rightarrow> False
    | Inr r \<Rightarrow>
        questionsAsked (state (saved r)) = 7 \<and> frozen (saved r)
        \<and> evaluation (saved r) = None \<and> EvaluationCall \<notin> set (llm_calls r)"
    by (rule conjunct2)
  show ?thesis
  proof (cases ?t)
    case (Inl e)
    then show ?thesis using c by simp
  next
    case (Inr r)
    then show ?thesis using c by simp
  qed
qed

text \<open>
  C10. For a session state whose \<^verbatim>\<open>startTime\<close> is unset, \<^verbatim>\<open>shouldEndInterview\<close> answers
  \<^verbatim>\<open>false\<close> whatever \<open>questionsAsked\<close>, the clock and the phase are, also for the phase
  \<^verbatim>\<open>completed\<close>; so the end of a turn that the moderation or the planner did not end leaves
  such a session as it is, without an evaluation call.
\<close>

theorem shouldEndInterview_without_startTime:
  "(startTime st = None \<longrightarrow> shouldEndInterview st duration clock = False)
   \<and> (startTime (state (session l)) = None \<and> \<not> shouldEndSession l
      \<longrightarrow> (\<exists>r. finish_turn env l = Inr r \<and> state (saved r) = state (session l)
                \<and> evaluation (saved r) = evaluation (session l) \<and> llm_calls r = calls l))"
  by (auto simp: shouldEndInterview_def finish_turn_def Let_def)

theorem shouldEndInterview_without_startTime_witness:
  "startTime \<lparr>phase = Completed, currentQuestionIndex = 0, questionsAsked = 100,
               startTime = None, endTime = None, lastActivity = 0, isActive = True\<rparr> = None
   \<and> shouldEndInterview
        \<lparr>phase = Completed, currentQuestionIndex = 0, questionsAsked = 100,
         startTime = None, endTime = None, lastActivity = 0, isActive = True\<rparr> 30 1000000000
      = False"
  using shouldEndInterview_without_startTime
          [of "\<lparr>phase = Completed, currentQuestionIndex = 0, questionsAsked = 100,
                startTime = None, endTime = None, lastActivity = 0, isActive = True\<rparr>"
              30 1000000000]
  by simp

end
